theory Spec2Isabelle
  imports Main
begin

section \<open>Python values and library operations used by debug-server.py\<close>

text \<open>
  Python's unbounded integers are \<open>int\<close>. A Python string is a \<open>string\<close> whose
  characters are code points: the model has the code points below 256, so that
  \<open>CHR 0xA0\<close> is the no-break space. An operation of the library that can raise
  returns a sum, with the exception on the left; the exceptions that occur are the
  constructors of \<open>exception\<close>, each carrying the text that \<open>str(e)\<close> gives.
\<close>

datatype exception =
    ValueError string
  | IndexError string
  | OperationalError string
  | ProgrammingError string
  | RuntimeError string
  | PermissionError string

fun str_exc :: "exception \<Rightarrow> string" where
  "str_exc (ValueError m) = m"
| "str_exc (IndexError m) = m"
| "str_exc (OperationalError m) = m"
| "str_exc (ProgrammingError m) = m"
| "str_exc (RuntimeError m) = m"
| "str_exc (PermissionError m) = m"

subsection \<open>String methods\<close>

definition newline :: char where
  "newline = CHR 0x0A"

definition startswith :: "string \<Rightarrow> string \<Rightarrow> bool" where
  "startswith s p = (take (length p) s = p)"

definition endswith :: "string \<Rightarrow> string \<Rightarrow> bool" where
  "endswith s p = (length p \<le> length s \<and> drop (length s - length p) s = p)"

text \<open>
  \<open>s.replace(old, new)\<close>: every non-overlapping occurrence of \<open>old\<close>, scanning from the
  left. For an empty \<open>old\<close> Python puts \<open>new\<close> before every character and at the end.
\<close>

fun replace :: "string \<Rightarrow> string \<Rightarrow> string \<Rightarrow> string" where
  "replace [] old new = (if old = [] then new else [])"
| "replace (c # cs) old new =
     (if old = [] then new @ c # replace cs old new
      else if startswith (c # cs) old
        then new @ replace (drop (length old - 1) cs) old new
      else c # replace cs old new)"

text \<open>
  The characters that \<open>str.strip()\<close> removes, those for which \<open>str.isspace()\<close> holds:
  tab to carriage return, the separators \<open>0x1C\<close> to \<open>0x1F\<close>, the space, the next-line
  character \<open>0x85\<close> and the no-break space \<open>0xA0\<close>.
\<close>

definition isspace :: "char \<Rightarrow> bool" where
  "isspace c =
     (let n = (of_char c :: nat)
      in (9 \<le> n \<and> n \<le> 13) \<or> (28 \<le> n \<and> n \<le> 32) \<or> n = 133 \<or> n = 160)"

definition strip :: "string \<Rightarrow> string" where
  "strip s = rev (dropWhile isspace (rev (dropWhile isspace s)))"

text \<open>
  \<open>int()\<close> skips fewer characters around a literal: not the separators \<open>0x1C\<close> to
  \<open>0x1F\<close>.
\<close>

definition int_space :: "char \<Rightarrow> bool" where
  "int_space c =
     (let n = (of_char c :: nat) in (9 \<le> n \<and> n \<le> 13) \<or> n = 32 \<or> n = 133 \<or> n = 160)"

definition isdigit :: "char \<Rightarrow> bool" where
  "isdigit c = (let n = (of_char c :: nat) in 48 \<le> n \<and> n \<le> 57)"

definition digit_value :: "char \<Rightarrow> int" where
  "digit_value c = int (of_char c) - 48"

text \<open>Decimal and hexadecimal digits, and \<open>str(n)\<close> for a natural number.\<close>

definition digit_char :: "nat \<Rightarrow> char" where
  "digit_char n = ''0123456789abcdef'' ! (n mod 16)"

function str_nat :: "nat \<Rightarrow> string" where
  "str_nat n = (if n < 10 then [digit_char n] else str_nat (n div 10) @ [digit_char (n mod 10)])"
  by pat_completeness auto
termination
  by (relation "measure id") auto

text \<open>
  \<open>repr(s)\<close>: the string between apostrophes, or between double quotes when it holds an
  apostrophe and no double quote; the backslash, the quote in use and the characters
  that are not printable are escaped.
\<close>

definition printable :: "char \<Rightarrow> bool" where
  "printable c = (let n = (of_char c :: nat) in (32 \<le> n \<and> n < 127) \<or> (160 < n \<and> n \<noteq> 173))"

definition escape_char :: "char \<Rightarrow> char \<Rightarrow> string" where
  "escape_char q c =
     (if c = CHR 0x5C then [CHR 0x5C, CHR 0x5C]
      else if c = q then [CHR 0x5C, q]
      else if c = CHR 0x09 then [CHR 0x5C, CHR ''t'']
      else if c = CHR 0x0A then [CHR 0x5C, CHR ''n'']
      else if c = CHR 0x0D then [CHR 0x5C, CHR ''r'']
      else if printable c then [c]
      else [CHR 0x5C, CHR ''x'', digit_char (of_char c div 16), digit_char (of_char c mod 16)])"

definition repr :: "string \<Rightarrow> string" where
  "repr s =
     (let q = (if CHR 0x27 \<in> set s \<and> CHR 0x22 \<notin> set s then CHR 0x22 else CHR 0x27)
      in [q] @ concat (map (escape_char q) s) @ [q])"

text \<open>\<open>quoted s\<close> is \<open>s\<close> between two apostrophes.\<close>

definition quoted :: "string \<Rightarrow> string" where
  "quoted s = [CHR 0x27] @ s @ [CHR 0x27]"

text \<open>
  The digits of a decimal literal as \<open>int()\<close> reads them: a run of digits and
  underscores, in which an underscore stands between two digits. \<open>digit_run\<close> is the
  run at the head of a string, \<open>run_value\<close> its value when it is well formed; \<open>acc\<close>
  is the value read so far and \<open>seen\<close> says that the previous character was a digit.
\<close>

definition digit_run :: "string \<Rightarrow> string" where
  "digit_run s = takeWhile (\<lambda>c. isdigit c \<or> c = CHR ''_'') s"

fun run_value :: "string \<Rightarrow> int \<Rightarrow> bool \<Rightarrow> int option" where
  "run_value [] acc seen = (if seen then Some acc else None)"
| "run_value (c # cs) acc seen =
     (if isdigit c then run_value cs (10 * acc + digit_value c) True
      else if c = CHR ''_'' \<and> seen then run_value cs acc False
      else None)"

text \<open>
  \<open>int(s)\<close> for a string, as the interpreter does it by default: white space around the
  literal is dropped, then comes an optional sign, then the run of digits, which must be
  well formed, have at most 4300 digits, and reach the end. Anything else raises
  \<open>ValueError\<close>.
\<close>

definition invalid_literal :: "string \<Rightarrow> exception" where
  "invalid_literal s = ValueError (''invalid literal for int() with base 10: '' @ repr s)"

definition exceeds_limit :: "nat \<Rightarrow> exception" where
  "exceeds_limit k =
     ValueError (''Exceeds the limit (4300 digits) for integer string conversion: value has ''
       @ str_nat k @ '' digits; use sys.set_int_max_str_digits() to increase the limit'')"

definition unsigned_literal :: "string \<Rightarrow> string \<Rightarrow> exception + int" where
  "unsigned_literal s t =
     (let run = digit_run t; k = length (filter isdigit run)
      in case run_value run 0 False of
           None \<Rightarrow> Inl (invalid_literal s)
         | Some n \<Rightarrow>
             if 4300 < k then Inl (exceeds_limit k)
             else if length run < length t then Inl (invalid_literal s)
             else Inr n)"

definition py_int :: "string \<Rightarrow> exception + int" where
  "py_int s =
     (let t = rev (dropWhile int_space (rev (dropWhile int_space s)))
      in case t of
           [] \<Rightarrow> Inl (invalid_literal s)
         | c # cs \<Rightarrow>
             if c = CHR ''-'' then
               (case unsigned_literal s cs of Inl e \<Rightarrow> Inl e | Inr n \<Rightarrow> Inr (- n))
             else if c = CHR ''+'' then unsigned_literal s cs
             else unsigned_literal s t)"

subsection \<open>Lists: slicing and \<open>readlines\<close>\<close>

text \<open>
  \<open>xs[start:]\<close>: a negative \<open>start\<close> counts from the end and is cut off at the
  beginning of the list; a non-negative one is cut off at its end.
\<close>

definition slice_from :: "'a list \<Rightarrow> int \<Rightarrow> 'a list" where
  "slice_from xs start =
     (let n = int (length xs);
          i = (if start < 0 then max (start + n) 0 else min start n)
      in drop (nat i) xs)"

text \<open>
  \<open>f.readlines()\<close> on the text of a file: the text is cut after every line feed, each
  line keeps its line feed, and a last line without one is kept as it is.
\<close>

fun readlines :: "string \<Rightarrow> string list" where
  "readlines [] = []"
| "readlines (c # cs) =
     (if c = newline then [c] # readlines cs
      else (case readlines cs of [] \<Rightarrow> [[c]] | l # ls \<Rightarrow> (c # l) # ls))"

section \<open>The world the server reads\<close>

text \<open>
  A \<open>pathlib\<close> path is kept as it was built: from a string, or with the \<open>/\<close> operator.
\<close>

datatype path = Path string | Join path string

text \<open>A value stored in a column of the relational store.\<close>

datatype sqlval = SNull | SInt int | SText string

text \<open>
  A result row (\<open>sqlite3.Row\<close>): the columns of the statement in order, each with its
  value. A connection is what \<open>conn.execute(sql, params)\<close> followed by fetching gives:
  the rows, or the exception raised.
\<close>

type_synonym row = "(string \<times> sqlval) list"
type_synonym connection = "string \<Rightarrow> sqlval list \<Rightarrow> exception + row list"

text \<open>
  Everything outside the source that the server reads, none of which it writes:
  \<^item> \<open>environ\<close>: \<open>os.environ\<close>;
  \<^item> \<open>home\<close>: \<open>Path.home()\<close>, which raises \<open>RuntimeError\<close> when no home directory
    can be determined;
  \<^item> \<open>path_exists\<close>: \<open>Path.exists()\<close>, which raises when the path cannot be examined
    (\<open>PermissionError\<close> under a directory that may not be searched);
  \<^item> \<open>file_text\<close>: the text read from a file opened in text mode, \<open>None\<close> when
    opening or reading raises (missing file, no permission, undecodable bytes);
  \<^item> \<open>connect\<close>: \<open>sqlite3.connect\<close>, which raises \<open>OperationalError\<close> when the file
    cannot be opened as a database;
  \<^item> \<open>int_str\<close>: \<open>int()\<close> of a string, as the running interpreter does it;
  \<^item> \<open>process_alive\<close>, for a positive process id: a process with that id exists and
    the server may signal it; \<open>group_alive\<close>, for a positive id of a process group: the
    same of some process of the group; \<open>others_alive\<close>: the same of some process other
    than the server;
  \<^item> \<open>utcnow\<close>: \<open>datetime.utcnow().isoformat()\<close>.
\<close>

record world =
  environ :: "string \<Rightarrow> string option"
  home :: "exception + path"
  path_exists :: "path \<Rightarrow> exception + bool"
  file_text :: "path \<Rightarrow> string option"
  connect :: "path \<Rightarrow> exception + connection"
  int_str :: "string \<Rightarrow> exception + int"
  process_alive :: "int \<Rightarrow> bool"
  group_alive :: "int \<Rightarrow> bool"
  others_alive :: bool
  utcnow :: string

text \<open>
  Whether \<open>os.kill(pid, 0)\<close> returns without raising. The process id must fit a C
  \<open>int\<close>. A positive id addresses that process, 0 the process group of the server
  itself, of which the server is a member, \<open>-1\<close> every other process, and another
  negative number the process group of its absolute value.
\<close>

definition os_kill0 :: "world \<Rightarrow> int \<Rightarrow> bool" where
  "os_kill0 w pid =
     (if pid < - 2147483648 \<or> 2147483647 < pid then False
      else if 0 < pid then process_alive w pid
      else if pid = 0 then True
      else if pid = - 1 then others_alive w
      else group_alive w (- pid))"

section \<open>Location of the data directory\<close>

text \<open>
  \<open>if os.environ.get('CT_DATA_DIR')\<close> tests the truth value of the result: the branch
  is taken when the variable is present and its value is not the empty string. The
  existence checks and the look-up of the home directory are outside any \<open>try\<close>.
\<close>

definition find_data_dir :: "world \<Rightarrow> exception + path" where
  "find_data_dir w =
     (let override = environ w ''CT_DATA_DIR'';
          local = Path ''.claude-threads''
      in if override \<noteq> None \<and> override \<noteq> Some [] then Inr (Path (the override))
         else
           (case path_exists w local of
              Inl e \<Rightarrow> Inl e
            | Inr True \<Rightarrow> Inr local
            | Inr False \<Rightarrow>
                (case home w of
                   Inl e \<Rightarrow> Inl e
                 | Inr h \<Rightarrow>
                     (case path_exists w (Join h ''.claude-threads'') of
                        Inl e \<Rightarrow> Inl e
                      | Inr True \<Rightarrow> Inr (Join h ''.claude-threads'')
                      | Inr False \<Rightarrow> Inr local))))"

text \<open>
  The module-level constants \<open>DATA_DIR\<close> and \<open>DB_PATH\<close>, computed once when the
  process starts, from the world as it is then.
\<close>

record config =
  DATA_DIR :: path
  DB_PATH :: path

definition startup :: "world \<Rightarrow> exception + config" where
  "startup w =
     (case find_data_dir w of
        Inl e \<Rightarrow> Inl e
      | Inr d \<Rightarrow> Inr \<lparr>DATA_DIR = d, DB_PATH = Join d ''threads.db''\<rparr>)"

section \<open>Read access\<close>

text \<open>
  The result of a function of the source that can raise and can print: the value it
  returns or the exception that leaves it, and the lines printed. \<open>bind_result\<close> runs a
  second computation on the value of a first, and stops at an exception.
\<close>

type_synonym 'a result = "(exception + 'a) \<times> string list"

definition bind_result :: "'a result \<Rightarrow> ('a \<Rightarrow> 'b result) \<Rightarrow> 'b result" where
  "bind_result m f =
     (case m of
        (Inl e, out) \<Rightarrow> (Inl e, out)
      | (Inr x, out) \<Rightarrow> (case f x of (r, out') \<Rightarrow> (r, out @ out')))"

text \<open>
  \<open>get_db\<close> has no \<open>try\<close>, and its callers call it before theirs: an exception of the
  existence check or of \<open>sqlite3.connect\<close> leaves \<open>get_db\<close> and its caller.
\<close>

definition get_db :: "config \<Rightarrow> world \<Rightarrow> exception + connection option" where
  "get_db cfg w =
     (case path_exists w (DB_PATH cfg) of
        Inl e \<Rightarrow> Inl e
      | Inr False \<Rightarrow> Inr None
      | Inr True \<Rightarrow>
          (case connect w (DB_PATH cfg) of
             Inl e \<Rightarrow> Inl e
           | Inr conn \<Rightarrow> Inr (Some conn)))"

text \<open>
  \<open>dict(row)\<close>: the names of the columns become the keys, in the order of their first
  occurrence, each with the value that \<open>row[name]\<close> gives. A row looks a name up without
  regard to the case of the letters \<open>A\<close> to \<open>Z\<close> and gives the first column that matches.
\<close>

definition lower_char :: "char \<Rightarrow> char" where
  "lower_char c =
     (let n = (of_char c :: nat) in if 65 \<le> n \<and> n \<le> 90 then char_of (n + 32) else c)"

fun row_get :: "row \<Rightarrow> string \<Rightarrow> sqlval" where
  "row_get [] name = SNull"
| "row_get ((k, v) # r) name =
     (if map lower_char k = map lower_char name then v else row_get r name)"

fun first_keys :: "string list \<Rightarrow> string list \<Rightarrow> string list" where
  "first_keys seen [] = []"
| "first_keys seen (k # ks) =
     (if k \<in> set seen then first_keys seen ks else k # first_keys (k # seen) ks)"

definition dict :: "row \<Rightarrow> row" where
  "dict r = map (\<lambda>k. (k, row_get r k)) (first_keys [] (map fst r))"

definition query_db :: "config \<Rightarrow> world \<Rightarrow> string \<Rightarrow> sqlval list \<Rightarrow> row list result" where
  "query_db cfg w sql params =
     (case get_db cfg w of
        Inl e \<Rightarrow> (Inl e, [])
      | Inr None \<Rightarrow> (Inr [], [])
      | Inr (Some conn) \<Rightarrow>
          (case conn sql params of
             Inr rows \<Rightarrow> (Inr (map dict rows), [])
           | Inl e \<Rightarrow> (Inr [], [''DB error: '' @ str_exc e])))"

text \<open>
  \<open>row[0] if row else 0\<close>: \<open>fetchone()\<close> gives the first row or \<open>None\<close>, and a row is
  false when it has no column.
\<close>

definition scalar_db :: "config \<Rightarrow> world \<Rightarrow> string \<Rightarrow> sqlval list \<Rightarrow> sqlval result" where
  "scalar_db cfg w sql params =
     (case get_db cfg w of
        Inl e \<Rightarrow> (Inl e, [])
      | Inr None \<Rightarrow> (Inr (SInt 0), [])
      | Inr (Some conn) \<Rightarrow>
          (case conn sql params of
             Inr rows \<Rightarrow>
               (case rows of
                  [] \<Rightarrow> (Inr (SInt 0), [])
                | [] # _ \<Rightarrow> (Inr (SInt 0), [])
                | ((c, v) # _) # _ \<Rightarrow> (Inr v, []))
           | Inl e \<Rightarrow> (Inr (SInt 0), [''DB error: '' @ str_exc e])))"

text \<open>The bare \<open>except\<close> turns every failure of the three steps into \<open>False\<close>.\<close>

definition is_pid_running :: "world \<Rightarrow> path \<Rightarrow> bool" where
  "is_pid_running w pid_file =
     (case file_text w pid_file of
        None \<Rightarrow> False
      | Some s \<Rightarrow>
          (case int_str w (strip s) of
             Inl e \<Rightarrow> False
           | Inr pid \<Rightarrow> os_kill0 w pid))"

definition read_log_file :: "world \<Rightarrow> path \<Rightarrow> int \<Rightarrow> string" where
  "read_log_file w p lines =
     (case file_text w p of
        None \<Rightarrow> []
      | Some s \<Rightarrow> (let all_lines = readlines s in concat (slice_from all_lines (- lines))))"

section \<open>The request handler\<close>

text \<open>
  The value handed to \<open>json.dumps\<close>. A Python \<open>dict\<close> keeps its keys in insertion
  order, so an object is a list of pairs.
\<close>

datatype json =
    JNull
  | JBool bool
  | JInt int
  | JString string
  | JArray "json list"
  | JObject "(string \<times> json) list"

fun json_of_sqlval :: "sqlval \<Rightarrow> json" where
  "json_of_sqlval SNull = JNull"
| "json_of_sqlval (SInt n) = JInt n"
| "json_of_sqlval (SText s) = JString s"

definition json_of_row :: "row \<Rightarrow> json" where
  "json_of_row r = JObject (map (\<lambda>(k, v). (k, json_of_sqlval v)) r)"

text \<open>
  A response: the status line, the headers the handler sets itself, and the body. The
  body of a JSON response is kept as the value that is serialised (the bytes on the wire
  and the \<open>Content-Length\<close> header computed from them are not part of the model);
  \<open>Dashboard\<close> is the constant \<open>DASHBOARD_HTML\<close>; \<open>ErrorPage\<close> is the page that
  \<open>send_error\<close> of the standard library writes.
\<close>

datatype body = JsonBody json | Dashboard | ErrorPage

record response =
  status :: int
  headers :: "(string \<times> string) list"
  content :: body

definition send_json :: "json \<Rightarrow> response" where
  "send_json data =
     \<lparr>status = 200,
      headers = [(''Content-Type'', ''application/json''),
                 (''Access-Control-Allow-Origin'', ''*'')],
      content = JsonBody data\<rparr>"

definition send_html :: "body \<Rightarrow> response" where
  "send_html page =
     \<lparr>status = 200,
      headers = [(''Content-Type'', ''text/html; charset=utf-8'')],
      content = page\<rparr>"

definition send_error :: "int \<Rightarrow> response" where
  "send_error code = \<lparr>status = code, headers = [], content = ErrorPage\<rparr>"

subsection \<open>The statements sent to the store\<close>

text \<open>
  The SQL texts of the source, character for character: the statements written over
  several lines keep their line feeds and indentation.
\<close>

definition sql_count_threads :: string where
  "sql_count_threads = ''SELECT COUNT(*) FROM threads''"

definition sql_count_status :: "string \<Rightarrow> string" where
  "sql_count_status st = ''SELECT COUNT(*) FROM threads WHERE status = '' @ quoted st"

definition sql_count_pending :: string where
  "sql_count_pending = ''SELECT COUNT(*) FROM events WHERE processed = 0''"

definition sql_thread_by_id :: string where
  "sql_thread_by_id = ''SELECT * FROM threads WHERE id = ?''"

definition sql_threads :: string where
  "sql_threads = concat
     [[newline],
      ''            SELECT id, name, mode, status, phase, template, session_id, worktree,'',
      [newline],
      ''                   context, created_at, updated_at'',
      [newline],
      ''            FROM threads ORDER BY updated_at DESC LIMIT 100'',
      [newline],
      ''        '']"

definition sql_events :: string where
  "sql_events = concat
     [[newline],
      ''            SELECT id, type, source, target, data, processed, timestamp'',
      [newline],
      ''            FROM events ORDER BY timestamp DESC LIMIT ?'',
      [newline],
      ''        '']"

definition sql_worktrees :: string where
  "sql_worktrees = concat
     [[newline],
      ''            SELECT w.id, w.thread_id, w.path, w.branch, w.base_branch, w.status,'',
      [newline],
      ''                   t.name as thread_name, t.status as thread_status'',
      [newline],
      ''            FROM worktrees w'',
      [newline],
      ''            LEFT JOIN threads t ON w.thread_id = t.id'',
      [newline],
      ''            ORDER BY w.created_at DESC'',
      [newline],
      ''        '']"

subsection \<open>The handlers of the routes\<close>

text \<open>
  The entries of the dictionary of \<open>api_status\<close> are evaluated in the order in which
  they are written, so an exception of one scalar leaves the later ones unasked.
\<close>

definition api_status :: "config \<Rightarrow> world \<Rightarrow> json result" where
  "api_status cfg w =
     bind_result (scalar_db cfg w sql_count_threads []) (\<lambda>total.
     bind_result (scalar_db cfg w (sql_count_status ''running'') []) (\<lambda>running.
     bind_result (scalar_db cfg w (sql_count_status ''ready'') []) (\<lambda>ready.
     bind_result (scalar_db cfg w sql_count_pending []) (\<lambda>pending.
       (Inr (JObject
          [(''threads'', JObject
              [(''total'', json_of_sqlval total),
               (''running'', json_of_sqlval running),
               (''ready'', json_of_sqlval ready)]),
           (''events_pending'', json_of_sqlval pending),
           (''orchestrator_running'',
              JBool (is_pid_running w (Join (DATA_DIR cfg) ''orchestrator.pid''))),
           (''api_running'',
              JBool (is_pid_running w (Join (DATA_DIR cfg) ''api-server.pid''))),
           (''timestamp'', JString (utcnow w @ ''Z''))]), [])))))"

definition api_threads :: "config \<Rightarrow> world \<Rightarrow> json result" where
  "api_threads cfg w =
     bind_result (query_db cfg w sql_threads []) (\<lambda>rows.
       (Inr (JArray (map json_of_row rows)), []))"

definition api_thread_detail :: "config \<Rightarrow> world \<Rightarrow> string \<Rightarrow> json result" where
  "api_thread_detail cfg w thread_id =
     bind_result (query_db cfg w sql_thread_by_id [SText thread_id]) (\<lambda>rows.
       (Inr (case rows of
               [] \<Rightarrow> JObject [(''error'', JString ''Thread not found'')]
             | r # _ \<Rightarrow> json_of_row r), []))"

definition api_thread_logs :: "config \<Rightarrow> world \<Rightarrow> string \<Rightarrow> int \<Rightarrow> json" where
  "api_thread_logs cfg w thread_id lines =
     (let log_file = Join (Join (DATA_DIR cfg) ''logs'') (''thread-'' @ thread_id @ ''.log'');
          text = read_log_file w log_file (min lines 500)
      in JObject
           [(''thread_id'', JString thread_id),
            (''lines'', JInt lines),
            (''content'', JString text)])"

definition api_events :: "config \<Rightarrow> world \<Rightarrow> int \<Rightarrow> json result" where
  "api_events cfg w limit =
     bind_result (query_db cfg w sql_events [SInt (min limit 500)]) (\<lambda>rows.
       (Inr (JArray (map json_of_row rows)), []))"

definition api_worktrees :: "config \<Rightarrow> world \<Rightarrow> json result" where
  "api_worktrees cfg w =
     bind_result (query_db cfg w sql_worktrees []) (\<lambda>rows.
       (Inr (JArray (map json_of_row rows)), []))"

definition api_logs :: "config \<Rightarrow> world \<Rightarrow> int \<Rightarrow> json" where
  "api_logs cfg w lines =
     (let log_file = Join (Join (DATA_DIR cfg) ''logs'') ''orchestrator.log'';
          text = read_log_file w log_file (min lines 1000)
      in JObject
           [(''file'', JString ''orchestrator.log''),
            (''lines'', JInt lines),
            (''content'', JString text)])"

subsection \<open>Dispatch\<close>

text \<open>
  A request as \<open>do_GET\<close> sees it after \<open>urlparse\<close> and \<open>parse_qs\<close>: the path of the
  URL, without parameters, query and fragment and not unquoted, and the query string as
  a dictionary from a name to the list of its values.
\<close>

record request =
  req_path :: string
  query :: "string \<Rightarrow> string list option"

text \<open>
  \<open>int(query.get(name, [default])[0])\<close>: the first value of the parameter, converted;
  the default when the parameter is absent. The conversion is outside any \<open>try\<close>.
\<close>

definition query_int :: "world \<Rightarrow> (string \<Rightarrow> string list option) \<Rightarrow> string \<Rightarrow> int \<Rightarrow> exception + int" where
  "query_int w q name dflt =
     (case q name of
        None \<Rightarrow> Inr dflt
      | Some [] \<Rightarrow> Inl (IndexError ''list index out of range'')
      | Some (v # _) \<Rightarrow> int_str w v)"

text \<open>
  The result of \<open>do_GET\<close> is the response written, or the exception that leaves the
  method with no response written, and the lines printed on the way.
\<close>

definition do_GET :: "config \<Rightarrow> world \<Rightarrow> request \<Rightarrow> response result" where
  "do_GET cfg w rq =
     (let path = req_path rq in
      if path = ''/'' \<or> path = ''/index.html'' then (Inr (send_html Dashboard), [])
      else if path = ''/api/status'' then
        bind_result (api_status cfg w) (\<lambda>data. (Inr (send_json data), []))
      else if path = ''/api/threads'' then
        bind_result (api_threads cfg w) (\<lambda>data. (Inr (send_json data), []))
      else if startswith path ''/api/thread/'' \<and> endswith path ''/logs'' then
        (let thread_id = replace (replace path ''/api/thread/'' '''') ''/logs'' '''' in
         case query_int w (query rq) ''lines'' 50 of
           Inl e \<Rightarrow> (Inl e, [])
         | Inr lines \<Rightarrow> (Inr (send_json (api_thread_logs cfg w thread_id lines)), []))
      else if startswith path ''/api/thread/'' then
        (let thread_id = replace path ''/api/thread/'' '''' in
         bind_result (api_thread_detail cfg w thread_id) (\<lambda>data. (Inr (send_json data), [])))
      else if path = ''/api/events'' then
        (case query_int w (query rq) ''limit'' 50 of
           Inl e \<Rightarrow> (Inl e, [])
         | Inr limit \<Rightarrow>
             bind_result (api_events cfg w limit) (\<lambda>data. (Inr (send_json data), [])))
      else if path = ''/api/worktrees'' then
        bind_result (api_worktrees cfg w) (\<lambda>data. (Inr (send_json data), []))
      else if path = ''/api/logs'' then
        (case query_int w (query rq) ''lines'' 100 of
           Inl e \<Rightarrow> (Inl e, [])
         | Inr lines \<Rightarrow> (Inr (send_json (api_logs cfg w lines)), []))
      else (Inr (send_error 404), []))"

section \<open>The relational store behind a connection\<close>

text \<open>
  What SQLite answers to the statements of the source whose result the properties below
  depend on, sent with the parameters the source sends. A database gives the rows of
  each table that exists, a row giving the value of each of its columns; tables and
  columns are named, and the columns hold values of the storage class, as section 3 of
  the specification says, so that \<open>=\<close> compares without conversion and is never true of
  \<open>NULL\<close>. While another process holds the lock of the database every statement fails.
  Every other statement, and every other tuple of parameters, is answered by \<open>other\<close>,
  about which nothing is assumed.
\<close>

type_synonym database = "string \<Rightarrow> row list option"

definition count_rows :: "database \<Rightarrow> string \<Rightarrow> (row \<Rightarrow> bool) \<Rightarrow> exception + row list" where
  "count_rows db tbl keep =
     (case db tbl of
        None \<Rightarrow> Inl (OperationalError (''no such table: '' @ tbl))
      | Some rs \<Rightarrow> Inr [[(''COUNT(*)'', SInt (int (length (filter keep rs))))]])"

definition has_status :: "string \<Rightarrow> row \<Rightarrow> bool" where
  "has_status st r = (map_of r ''status'' = Some (SText st))"

definition unprocessed :: "row \<Rightarrow> bool" where
  "unprocessed r = (map_of r ''processed'' = Some (SInt 0))"

definition has_id :: "sqlval \<Rightarrow> row \<Rightarrow> bool" where
  "has_id v r = (v \<noteq> SNull \<and> map_of r ''id'' = Some v)"

definition sqlite_conn :: "bool \<Rightarrow> database \<Rightarrow> connection \<Rightarrow> connection" where
  "sqlite_conn locked db other sql params =
     (if locked then Inl (OperationalError ''database is locked'')
      else if sql = sql_count_threads \<and> params = [] then
        count_rows db ''threads'' (\<lambda>r. True)
      else if sql = sql_count_status ''running'' \<and> params = [] then
        count_rows db ''threads'' (has_status ''running'')
      else if sql = sql_count_status ''ready'' \<and> params = [] then
        count_rows db ''threads'' (has_status ''ready'')
      else if sql = sql_count_pending \<and> params = [] then
        count_rows db ''events'' unprocessed
      else if sql = sql_thread_by_id \<and> length params = 1 then
        (case db ''threads'' of
           None \<Rightarrow> Inl (OperationalError ''no such table: threads'')
         | Some rs \<Rightarrow> Inr (filter (has_id (hd params)) rs))
      else other sql params)"

text \<open>
  The state of the store as a request finds it: no file at \<open>DB_PATH\<close>, or a file that
  opens as a database which is not locked. \<open>serves cfg w st other\<close> says that the
  world \<open>w\<close> presents that state to a server configured by \<open>cfg\<close>.
\<close>

definition serves :: "config \<Rightarrow> world \<Rightarrow> database option \<Rightarrow> connection \<Rightarrow> bool" where
  "serves cfg w st other =
     (case st of
        None \<Rightarrow> path_exists w (DB_PATH cfg) = Inr False
      | Some db \<Rightarrow>
          path_exists w (DB_PATH cfg) = Inr True \<and>
          connect w (DB_PATH cfg) = Inr (sqlite_conn False db other))"

text \<open>The rows of a table of the store; none when the store or the table is absent.\<close>

definition table_rows :: "database option \<Rightarrow> string \<Rightarrow> row list" where
  "table_rows st tbl =
     (case st of
        None \<Rightarrow> []
      | Some db \<Rightarrow> (case db tbl of None \<Rightarrow> [] | Some rs \<Rightarrow> rs))"

text \<open>
  A connection honours \<open>LIMIT\<close> when the statement of the events route, sent with a
  limit that is not negative, gives at most that many rows.
\<close>

definition honours_limit :: "connection \<Rightarrow> bool" where
  "honours_limit conn =
     (\<forall>m rows. 0 \<le> m \<longrightarrow> conn sql_events [SInt m] = Inr rows \<longrightarrow> length rows \<le> nat m)"

text \<open>The lines of a text.\<close>

definition line_count :: "string \<Rightarrow> nat" where
  "line_count s = length (readlines s)"

section \<open>Requests, responses and example worlds\<close>

text \<open>
  The response with status 200 that carries a JSON value, written out, and the bodies of
  the two log routes, given the text they carry.
\<close>

abbreviation ok_json :: "json \<Rightarrow> response" where
  "ok_json data \<equiv>
     \<lparr>status = 200,
      headers = [(''Content-Type'', ''application/json''),
                 (''Access-Control-Allow-Origin'', ''*'')],
      content = JsonBody data\<rparr>"

definition logs_body :: "int \<Rightarrow> string \<Rightarrow> json" where
  "logs_body n text =
     JObject [(''file'', JString ''orchestrator.log''), (''lines'', JInt n), (''content'', JString text)]"

definition thread_logs_body :: "string \<Rightarrow> int \<Rightarrow> string \<Rightarrow> json" where
  "thread_logs_body thread_id n text =
     JObject [(''thread_id'', JString thread_id), (''lines'', JInt n), (''content'', JString text)]"

definition not_found_body :: json where
  "not_found_body = JObject [(''error'', JString ''Thread not found'')]"

text \<open>
  The log files the two log routes read, and the thread id that \<open>do_GET\<close> cuts out of
  the path of a request for a thread's log.
\<close>

definition orchestrator_log :: "config \<Rightarrow> path" where
  "orchestrator_log cfg = Join (Join (DATA_DIR cfg) ''logs'') ''orchestrator.log''"

definition thread_log :: "config \<Rightarrow> string \<Rightarrow> path" where
  "thread_log cfg thread_id = Join (Join (DATA_DIR cfg) ''logs'') (''thread-'' @ thread_id @ ''.log'')"

definition logs_thread_id :: "request \<Rightarrow> string" where
  "logs_thread_id rq = replace (replace (req_path rq) ''/api/thread/'' '''') ''/logs'' ''''"

text \<open>
  A request that \<open>do_GET\<close> dispatches to one of the three routes taking a number, whose
  parameter (or the default of the route) the interpreter converts to the integer \<open>n\<close>.
\<close>

definition asks_logs :: "world \<Rightarrow> request \<Rightarrow> int \<Rightarrow> bool" where
  "asks_logs w rq n =
     (req_path rq = ''/api/logs'' \<and> query_int w (query rq) ''lines'' 100 = Inr n)"

definition asks_thread_logs :: "world \<Rightarrow> request \<Rightarrow> int \<Rightarrow> bool" where
  "asks_thread_logs w rq n =
     (startswith (req_path rq) ''/api/thread/'' \<and> endswith (req_path rq) ''/logs'' \<and>
      query_int w (query rq) ''lines'' 50 = Inr n)"

definition asks_events :: "world \<Rightarrow> request \<Rightarrow> int \<Rightarrow> bool" where
  "asks_events w rq n =
     (req_path rq = ''/api/events'' \<and> query_int w (query rq) ''limit'' 50 = Inr n)"

definition get_request :: "string \<Rightarrow> (string \<times> string list) list \<Rightarrow> request" where
  "get_request p q = \<lparr>req_path = p, query = map_of q\<rparr>"

text \<open>
  A small world for the examples: no override, the data directory \<open>.claude-threads\<close>
  under the working directory, no store, the orchestrator's log of three lines and the
  log of thread \<open>t1\<close> of two lines, the interpreter's \<open>int()\<close>, and no process that
  answers a probe but the server and its group.
\<close>

definition example_cfg :: config where
  "example_cfg = \<lparr>DATA_DIR = Path ''.claude-threads'', DB_PATH = Join (Path ''.claude-threads'') ''threads.db''\<rparr>"

definition three_lines :: string where
  "three_lines = ''one'' @ [newline] @ ''two'' @ [newline] @ ''three'' @ [newline]"

definition two_lines :: string where
  "two_lines = ''alpha'' @ [newline] @ ''beta''"

definition example_world :: world where
  "example_world =
     \<lparr>environ = (\<lambda>name. None),
      home = Inr (Path ''/home/user''),
      path_exists = (\<lambda>p. Inr (p = Path ''.claude-threads'')),
      file_text = (\<lambda>p. if p = orchestrator_log example_cfg then Some three_lines
                          else if p = thread_log example_cfg ''t1'' then Some two_lines
                          else None),
      connect = (\<lambda>p. Inl (OperationalError ''unable to open database file'')),
      int_str = py_int,
      process_alive = (\<lambda>pid. False),
      group_alive = (\<lambda>pgid. False),
      others_alive = True,
      utcnow = ''2024-01-01T00:00:00''\<rparr>"

text \<open>
  Logs longer than the ceilings: 1200 lines for the orchestrator, 600 for thread \<open>t1\<close>.
\<close>

definition log_line :: string where
  "log_line = ''tick'' @ [newline]"

definition long_log_world :: world where
  "long_log_world =
     example_world
       \<lparr>file_text := (\<lambda>p. if p = orchestrator_log example_cfg
                               then Some (concat (replicate 1200 log_line))
                            else if p = thread_log example_cfg ''t1''
                               then Some (concat (replicate 600 log_line))
                            else None)\<rparr>"

text \<open>
  A store for the examples: five threads, two of them running and one ready, three
  events of which two are not processed, and no table of worktrees. \<open>store_world\<close>
  is the example world with that store in place, \<open>locked_world\<close> has the same store
  while a writer holds its lock, and in \<open>unopenable_world\<close> the path of the store
  exists but is no file that SQLite can open.
\<close>

definition thread_row :: "string \<Rightarrow> string \<Rightarrow> row" where
  "thread_row i st = [(''id'', SText i), (''name'', SText (''thread '' @ i)), (''status'', SText st)]"

definition event_row :: "int \<Rightarrow> int \<Rightarrow> row" where
  "event_row i p = [(''id'', SInt i), (''type'', SText ''note''), (''processed'', SInt p)]"

definition example_db :: database where
  "example_db tbl =
     (if tbl = ''threads'' then
        Some [thread_row ''t1'' ''running'', thread_row ''t2'' ''ready'',
              thread_row ''t3'' ''running'', thread_row ''t4'' ''completed'',
              thread_row ''t5'' ''failed'']
      else if tbl = ''events'' then Some [event_row 1 0, event_row 2 1, event_row 3 0]
      else None)"

definition no_other :: connection where
  "no_other sql params = Inl (OperationalError ''statement outside the example'')"

definition with_store :: "exception + connection \<Rightarrow> world" where
  "with_store c =
     example_world
       \<lparr>path_exists := (\<lambda>p. Inr (p = Path ''.claude-threads'' \<or> p = DB_PATH example_cfg)),
        connect := (\<lambda>p. c)\<rparr>"

definition store_world :: world where
  "store_world = with_store (Inr (sqlite_conn False example_db no_other))"

definition locked_world :: world where
  "locked_world = with_store (Inr (sqlite_conn True example_db no_other))"

definition unopenable_world :: world where
  "unopenable_world = with_store (Inl (OperationalError ''unable to open database file''))"

text \<open>
  A store of 600 events, newest first, behind a connection that answers the statement
  of the events route as SQLite does: all rows for a negative limit, the first \<open>m\<close>
  rows for a limit \<open>m\<close> that is not negative.
\<close>

definition timed_event :: "nat \<Rightarrow> row" where
  "timed_event i =
     [(''id'', SInt (int i)), (''type'', SText ''note''), (''source'', SNull),
      (''target'', SNull), (''data'', SNull), (''processed'', SInt 0),
      (''timestamp'', SInt (int i))]"

definition newest_first :: "row list" where
  "newest_first = map timed_event (rev [0..<600])"

definition events_conn :: connection where
  "events_conn sql params =
     (if sql = sql_events then
        (case params of
           [SInt m] \<Rightarrow> Inr (if m < 0 then newest_first else take (nat m) newest_first)
         | _ \<Rightarrow> no_other sql params)
      else no_other sql params)"

definition events_world :: world where
  "events_world = with_store (Inr events_conn)"

text \<open>
  Worlds for the examples of the location of the data directory: the override, and
  whether the two conventional directories exist; a world without a home directory; and
  worlds in which a directory cannot be examined.
\<close>

definition location_world :: "string option \<Rightarrow> bool \<Rightarrow> bool \<Rightarrow> world" where
  "location_world override local_exists home_exists =
     example_world
       \<lparr>environ := (\<lambda>name. if name = ''CT_DATA_DIR'' then override else None),
        path_exists := (\<lambda>p. Inr ((p = Path ''.claude-threads'' \<and> local_exists) \<or>
                                  (p = Join (Path ''/home/user'') ''.claude-threads'' \<and> home_exists)))\<rparr>"

definition homeless_world :: world where
  "homeless_world =
     (location_world None False False)
       \<lparr>home := Inl (RuntimeError ''Could not determine home directory.'')\<rparr>"

definition denied :: exception where
  "denied = PermissionError ''[Errno 13] Permission denied''"

definition unsearchable_home_world :: world where
  "unsearchable_home_world =
     (location_world None False False)
       \<lparr>path_exists := (\<lambda>p. if p = Path ''.claude-threads'' then Inr False else Inl denied)\<rparr>"

definition unsearchable_cwd_world :: world where
  "unsearchable_cwd_world =
     (location_world None False False)\<lparr>path_exists := (\<lambda>p. Inl denied)\<rparr>"

text \<open>
  A world with PID files: one holding the number of a process that answers the probe,
  one holding text that is no number, one holding the number of a process that is gone,
  and one holding \<open>0\<close>.
\<close>

definition pid_world :: world where
  "pid_world =
     example_world
       \<lparr>file_text := (\<lambda>p. if p = Join (Path ''.claude-threads'') ''orchestrator.pid''
                               then Some (''4242'' @ [newline])
                            else if p = Join (Path ''.claude-threads'') ''api-server.pid''
                               then Some ''not a pid''
                            else if p = Join (Path ''.claude-threads'') ''stale.pid''
                               then Some ''17''
                            else if p = Join (Path ''.claude-threads'') ''zero.pid''
                               then Some ''0''
                            else None),
        process_alive := (\<lambda>pid. pid = 4242)\<rparr>"

text \<open>
  The shape of the result of \<open>readlines\<close>: every line but the last ends in the only
  line feed it has, and the last may lack it but is not empty.
\<close>

fun lines_ok :: "string list \<Rightarrow> bool" where
  "lines_ok [] = True"
| "lines_ok [l] =
     (l \<noteq> [] \<and> newline \<notin> set (butlast l))"
| "lines_ok (l # ls) =
     (l \<noteq> [] \<and> last l = newline \<and> newline \<notin> set (butlast l) \<and> lines_ok ls)"

section \<open>Properties of the library operations\<close>

lemma concat_readlines: "concat (readlines s) = s"
  by (induction s) (auto split: list.splits)

lemma readlines_eq_Nil: "readlines s = [] \<longleftrightarrow> s = []"
  by (cases s) (simp_all split: list.split)

text \<open>A line with its line feed in front of a text is the first line of the whole.\<close>

lemma readlines_line_append:
  "newline \<notin> set b \<Longrightarrow> readlines (b @ newline # r) = (b @ [newline]) # readlines r"
  by (induction b) auto

lemma readlines_last_line:
  "newline \<notin> set b \<Longrightarrow> b \<noteq> [] \<Longrightarrow> readlines b = [b]"
proof (induction b)
  case Nil
  then show ?case by simp
next
  case (Cons a b)
  then show ?case by (cases "b = []") auto
qed

lemma lines_ok_readlines: "lines_ok (readlines s)"
proof (induction s)
  case Nil
  show ?case by simp
next
  case (Cons c s)
  show ?case
  proof (cases "c = newline")
    case True
    with Cons show ?thesis by (cases "readlines s") auto
  next
    case False
    show ?thesis
    proof (cases "readlines s")
      case Nil
      with False show ?thesis by simp
    next
      case (Cons l ls)
      with False Cons.IH show ?thesis by (cases ls) (auto split: if_splits)
    qed
  qed
qed

lemma lines_ok_tl: "lines_ok (l # ls) \<Longrightarrow> lines_ok ls"
  by (cases ls) auto

lemma lines_ok_drop: "lines_ok ls \<Longrightarrow> lines_ok (drop k ls)"
proof (induction k arbitrary: ls)
  case 0
  then show ?case by simp
next
  case (Suc k)
  then show ?case by (cases ls) (auto dest: lines_ok_tl)
qed

lemma readlines_concat: "lines_ok ls \<Longrightarrow> readlines (concat ls) = ls"
proof (induction ls rule: lines_ok.induct)
  case 1
  show ?case by simp
next
  case (2 l)
  then have l: "l \<noteq> []" "newline \<notin> set (butlast l)" by simp_all
  show ?case
  proof (cases "last l = newline")
    case True
    with l have eq: "butlast l @ [newline] = l" by (metis append_butlast_last_id)
    have "readlines (butlast l @ newline # []) = (butlast l @ [newline]) # readlines []"
      by (rule readlines_line_append [OF l(2)])
    with eq show ?thesis by simp
  next
    case False
    with l have "newline \<notin> set l"
      by (metis append_butlast_last_id in_set_butlast_appendI insert_iff list.simps(15)
          rotate1.simps(2) set_rotate1)
    with l show ?thesis by (simp add: readlines_last_line)
  qed
next
  case (3 l l' ls)
  then have l: "l \<noteq> []" "last l = newline" "newline \<notin> set (butlast l)" by simp_all
  from 3 have IH: "readlines (concat (l' # ls)) = l' # ls" by simp
  from l have eq: "l = butlast l @ [newline]" by (metis append_butlast_last_id)
  have "readlines (concat (l # l' # ls)) = readlines (butlast l @ newline # concat (l' # ls))"
    using eq by (metis append_Cons append_Nil append_assoc concat.simps(2))
  also have "\<dots> = (butlast l @ [newline]) # readlines (concat (l' # ls))"
    by (rule readlines_line_append [OF l(3)])
  finally show ?case using eq IH by simp
qed

lemma readlines_concat_drop:
  "readlines (concat (drop k (readlines s))) = drop k (readlines s)"
  by (rule readlines_concat [OF lines_ok_drop [OF lines_ok_readlines]])

lemma slice_from_length: "length (slice_from xs (- n)) \<le> nat n" if "0 < n"
  using that by (auto simp: slice_from_def Let_def max_def)

lemma slice_from_last: "0 < n \<Longrightarrow> slice_from xs (- n) = drop (length xs - nat n) xs"
  by (auto simp: slice_from_def Let_def max_def nat_diff_distrib' intro: arg_cong [where f = "\<lambda>k. drop k xs"])

lemma slice_from_zero: "slice_from xs 0 = xs"
  by (simp add: slice_from_def)

lemma slice_from_nonneg: "0 \<le> k \<Longrightarrow> slice_from xs k = drop (nat k) xs"
  by (auto simp: slice_from_def Let_def min_def)

lemma readlines_replicate:
  assumes "newline \<notin> set b"
  shows "readlines (concat (replicate k (b @ [newline]))) = replicate k (b @ [newline])"
proof (induction k)
  case 0
  show ?case by simp
next
  case (Suc k)
  have "readlines (b @ newline # concat (replicate k (b @ [newline])))
      = (b @ [newline]) # readlines (concat (replicate k (b @ [newline])))"
    by (rule readlines_line_append [OF assms])
  with Suc show ?case by simp
qed

section \<open>Properties of the log tail\<close>

lemma read_log_file_unreadable: "file_text w p = None \<Longrightarrow> read_log_file w p n = []"
  by (simp add: read_log_file_def)

lemma read_log_file_readable:
  "file_text w p = Some s \<Longrightarrow> read_log_file w p n = concat (slice_from (readlines s) (- n))"
  by (simp add: read_log_file_def)

lemma readlines_read_log_file:
  assumes "file_text w p = Some s" and "0 < n"
  shows "readlines (read_log_file w p n) = drop (length (readlines s) - nat n) (readlines s)"
  using assms by (simp add: read_log_file_readable slice_from_last readlines_concat_drop)

lemma line_count_read_log_file:
  assumes "0 < n"
  shows "line_count (read_log_file w p n) \<le> nat n"
proof (cases "file_text w p")
  case None
  then show ?thesis by (simp add: read_log_file_unreadable line_count_def)
next
  case (Some s)
  from readlines_read_log_file [OF Some assms] show ?thesis
    by (simp add: line_count_def)
qed

lemma read_log_file_nonpositive:
  assumes "file_text w p = Some s" and "n \<le> 0"
  shows "read_log_file w p n = concat (drop (nat (- n)) (readlines s))"
  using assms by (simp add: read_log_file_readable slice_from_nonneg)

section \<open>Dispatch of the log and event routes\<close>

lemma api_logs_body:
  "api_logs cfg w n = logs_body n (read_log_file w (orchestrator_log cfg) (min n 1000))"
  by (simp add: api_logs_def logs_body_def orchestrator_log_def)

lemma api_thread_logs_body:
  "api_thread_logs cfg w t n = thread_logs_body t n (read_log_file w (thread_log cfg t) (min n 500))"
  by (simp add: api_thread_logs_def thread_logs_body_def thread_log_def)

lemma do_GET_logs:
  "asks_logs w rq n \<Longrightarrow> do_GET cfg w rq = (Inr (ok_json (api_logs cfg w n)), [])"
  by (simp add: asks_logs_def do_GET_def startswith_def endswith_def send_json_def)

lemma do_GET_thread_logs:
  assumes "asks_thread_logs w rq n"
  shows "do_GET cfg w rq = (Inr (ok_json (api_thread_logs cfg w (logs_thread_id rq) n)), [])"
proof -
  from assms have p: "startswith (req_path rq) ''/api/thread/''" "endswith (req_path rq) ''/logs''"
    and q: "query_int w (query rq) ''lines'' 50 = Inr n"
    by (simp_all add: asks_thread_logs_def)
  from p(1) have ne: "req_path rq \<noteq> ''/''" "req_path rq \<noteq> ''/index.html''"
    "req_path rq \<noteq> ''/api/status''" "req_path rq \<noteq> ''/api/threads''"
    by (auto simp: startswith_def)
  show ?thesis using p q ne by (simp add: do_GET_def logs_thread_id_def send_json_def)
qed

lemma do_GET_events:
  "asks_events w rq n \<Longrightarrow>
     do_GET cfg w rq = bind_result (api_events cfg w n) (\<lambda>data. (Inr (send_json data), []))"
  by (simp add: asks_events_def do_GET_def startswith_def endswith_def)

lemma get_db_absent: "path_exists w (DB_PATH cfg) = Inr False \<Longrightarrow> get_db cfg w = Inr None"
  by (simp add: get_db_def)

lemma get_db_open:
  "path_exists w (DB_PATH cfg) = Inr True \<Longrightarrow> connect w (DB_PATH cfg) = Inr conn \<Longrightarrow>
     get_db cfg w = Inr (Some conn)"
  by (simp add: get_db_def)

lemma get_db_unopenable:
  "path_exists w (DB_PATH cfg) = Inr True \<Longrightarrow> connect w (DB_PATH cfg) = Inl e \<Longrightarrow>
     get_db cfg w = Inl e"
  by (simp add: get_db_def)

section \<open>Evaluation of the examples\<close>

lemmas py_int_simps =
  py_int_def unsigned_literal_def digit_run_def int_space_def isdigit_def digit_value_def
  invalid_literal_def repr_def escape_char_def printable_def quoted_def Let_def

lemma py_int_999999: "py_int ''999999'' = Inr 999999"
  by (simp add: py_int_simps)

lemma py_int_0: "py_int ''0'' = Inr 0"
  by (simp add: py_int_simps)

lemma py_int_minus_2: "py_int ''-2'' = Inr (- 2)"
  by (simp add: py_int_simps)

lemma py_int_17: "py_int ''17'' = Inr 17"
  by (simp add: py_int_simps)

lemma py_int_4242: "py_int ''4242'' = Inr 4242"
  by (simp add: py_int_simps)

lemma py_int_abc:
  "py_int ''abc'' = Inl (ValueError (''invalid literal for int() with base 10: '' @ quoted ''abc''))"
  by (simp add: py_int_simps)

lemma example_int_str: "int_str example_world = py_int"
  by (simp add: example_world_def)

lemma readlines_three_lines:
  "readlines three_lines = [''one'' @ [newline], ''two'' @ [newline], ''three'' @ [newline]]"
  by (simp add: three_lines_def newline_def)

lemma readlines_two_lines: "readlines two_lines = [''alpha'' @ [newline], ''beta'']"
  by (simp add: two_lines_def newline_def)

lemma example_orchestrator_log:
  "file_text example_world (orchestrator_log example_cfg) = Some three_lines"
  by (simp add: example_world_def)

lemma example_thread_log:
  "file_text example_world (thread_log example_cfg ''t1'') = Some two_lines"
  by (simp add: example_world_def orchestrator_log_def thread_log_def)

lemma example_logs_thread_id:
  "logs_thread_id (get_request ''/api/thread/t1/logs'' q) = ''t1''"
  by (simp add: logs_thread_id_def get_request_def startswith_def)

lemma readlines_long_log: "readlines (concat (replicate k log_line)) = replicate k log_line"
  unfolding log_line_def by (rule readlines_replicate) (simp add: newline_def)

lemma long_orchestrator_log:
  "file_text long_log_world (orchestrator_log example_cfg) = Some (concat (replicate 1200 log_line))"
  by (simp add: long_log_world_def)

lemma long_thread_log:
  "file_text long_log_world (thread_log example_cfg ''t1'') = Some (concat (replicate 600 log_line))"
  by (simp add: long_log_world_def orchestrator_log_def thread_log_def)

lemma long_int_str: "int_str long_log_world = py_int"
  by (simp add: long_log_world_def example_world_def)

lemma with_store_fields:
  "path_exists (with_store c) (DB_PATH example_cfg) = Inr True"
  "connect (with_store c) p = c"
  "int_str (with_store c) = py_int"
  "utcnow (with_store c) = ''2024-01-01T00:00:00''"
  "file_text (with_store c) = file_text example_world"
  by (simp_all add: with_store_def example_world_def)

section \<open>Claims about the log tail and the conversion of parameters\<close>

text \<open>
  C4. \<open>read_log_file\<close> is documented to read the last \<open>N\<close> lines of a log file. With
  \<open>lines = 0\<close> it returns the whole file: on the file of three lines the result is all
  three lines, where the last 0 lines are no line at all. For a file that cannot be
  read, and for a positive number of lines, it does what the documentation says
  (\<open>read_log_file_unreadable\<close>, \<open>readlines_read_log_file\<close>).
\<close>

theorem read_log_file_zero_returns_whole_file:
  "read_log_file example_world (orchestrator_log example_cfg) 0 = three_lines \<and>
   line_count (read_log_file example_world (orchestrator_log example_cfg) 0) = 3 \<and>
   \<not> line_count (read_log_file example_world (orchestrator_log example_cfg) 0) \<le> 0"
proof -
  have "read_log_file example_world (orchestrator_log example_cfg) 0 = three_lines"
    using read_log_file_nonpositive [OF example_orchestrator_log, of 0]
    by (simp add: concat_readlines)
  then show ?thesis by (simp add: line_count_def readlines_three_lines)
qed

text \<open>
  C5. A request for a route of the table whose \<open>lines\<close> or \<open>limit\<close> is not a number
  does not get a response: \<open>int()\<close> raises \<open>ValueError\<close> in \<open>do_GET\<close>, outside any
  \<open>try\<close>, so the exception leaves the handler, no status 200 is sent and nothing is
  printed by the handler. This holds on each of the three routes that take a number.
\<close>

theorem non_numeric_parameter_escapes_do_GET:
  "do_GET example_cfg example_world (get_request ''/api/logs'' [(''lines'', [''abc''])])
     = (Inl (ValueError (''invalid literal for int() with base 10: '' @ quoted ''abc'')), []) \<and>
   do_GET example_cfg example_world (get_request ''/api/events'' [(''limit'', [''abc''])])
     = (Inl (ValueError (''invalid literal for int() with base 10: '' @ quoted ''abc'')), []) \<and>
   do_GET example_cfg example_world (get_request ''/api/thread/t1/logs'' [(''lines'', [''abc''])])
     = (Inl (ValueError (''invalid literal for int() with base 10: '' @ quoted ''abc'')), [])"
  by (simp add: do_GET_def get_request_def query_int_def example_int_str py_int_abc
      startswith_def endswith_def)

lemma query_db_absent:
  "path_exists w (DB_PATH cfg) = Inr False \<Longrightarrow> query_db cfg w sql ps = (Inr [], [])"
  by (simp add: query_db_def get_db_absent)

lemma query_db_rows:
  "path_exists w (DB_PATH cfg) = Inr True \<Longrightarrow> connect w (DB_PATH cfg) = Inr conn \<Longrightarrow>
     conn sql ps = Inr rows \<Longrightarrow> query_db cfg w sql ps = (Inr (map dict rows), [])"
  by (simp add: query_db_def get_db_open)

lemma query_db_failed:
  "path_exists w (DB_PATH cfg) = Inr True \<Longrightarrow> connect w (DB_PATH cfg) = Inr conn \<Longrightarrow>
     conn sql ps = Inl e \<Longrightarrow> query_db cfg w sql ps = (Inr [], [''DB error: '' @ str_exc e])"
  by (simp add: query_db_def get_db_open)

lemma query_db_unopenable:
  "path_exists w (DB_PATH cfg) = Inr True \<Longrightarrow> connect w (DB_PATH cfg) = Inl e \<Longrightarrow>
     query_db cfg w sql ps = (Inl e, [])"
  by (simp add: query_db_def get_db_unopenable)

lemma tail_of_log:
  assumes "0 < n" and "0 < c"
  shows "line_count (read_log_file w p (min n c)) \<le> nat c"
    and "file_text w p = Some s \<Longrightarrow>
      readlines (read_log_file w p (min n c))
        = drop (length (readlines s) - nat (min n c)) (readlines s)"
proof -
  from assms have m: "0 < min n c" by simp
  from line_count_read_log_file [OF m, of w p]
  show "line_count (read_log_file w p (min n c)) \<le> nat c" by simp
  show "file_text w p = Some s \<Longrightarrow>
      readlines (read_log_file w p (min n c))
        = drop (length (readlines s) - nat (min n c)) (readlines s)"
    by (rule readlines_read_log_file [OF _ m])
qed

section \<open>Claims about the clamp of the log and event routes\<close>

text \<open>
  C1. For every GET request to \<open>/api/logs\<close>, \<open>/api/thread/{id}/logs\<close> or
  \<open>/api/events\<close> whose \<open>lines\<close> or \<open>limit\<close> the interpreter converts to \<open>n\<close>, the
  value the handler uses is \<open>min n 1000\<close>, \<open>min n 500\<close> and \<open>min n 500\<close>, which does
  not exceed the ceiling of the route. The log routes answer with status 200 and the
  tail read with that value: for a positive \<open>n\<close> the text in the body is exactly the
  last \<open>min n ceiling\<close> lines of the log, so at most as many lines as the ceiling. The
  events route binds that value, and no other, to the \<open>LIMIT\<close> of its statement and
  answers with the rows the store gives for it: at most 500 when \<open>n\<close> is not negative
  and the store honours \<open>LIMIT\<close>. A request for 999999 lines of \<open>/api/logs\<close> is
  answered with at most 1000 lines.
\<close>

theorem effective_value_at_most_ceiling:
  "(asks_logs w rq n \<longrightarrow>
      do_GET cfg w rq =
        (Inr (ok_json (logs_body n (read_log_file w (orchestrator_log cfg) (min n 1000)))), []) \<and>
      min n 1000 \<le> 1000 \<and>
      (0 < n \<longrightarrow>
         line_count (read_log_file w (orchestrator_log cfg) (min n 1000)) \<le> 1000 \<and>
         (file_text w (orchestrator_log cfg) = Some s \<longrightarrow>
            readlines (read_log_file w (orchestrator_log cfg) (min n 1000))
              = drop (length (readlines s) - nat (min n 1000)) (readlines s)))) \<and>
   (asks_thread_logs w rq n \<longrightarrow>
      do_GET cfg w rq =
        (Inr (ok_json (thread_logs_body (logs_thread_id rq) n
                (read_log_file w (thread_log cfg (logs_thread_id rq)) (min n 500)))), []) \<and>
      min n 500 \<le> 500 \<and>
      (0 < n \<longrightarrow>
         line_count (read_log_file w (thread_log cfg (logs_thread_id rq)) (min n 500)) \<le> 500 \<and>
         (file_text w (thread_log cfg (logs_thread_id rq)) = Some s \<longrightarrow>
            readlines (read_log_file w (thread_log cfg (logs_thread_id rq)) (min n 500))
              = drop (length (readlines s) - nat (min n 500)) (readlines s)))) \<and>
   (asks_events w rq n \<longrightarrow>
      min n 500 \<le> 500 \<and>
      (path_exists w (DB_PATH cfg) = Inr False \<longrightarrow>
         do_GET cfg w rq = (Inr (ok_json (JArray [])), [])) \<and>
      (path_exists w (DB_PATH cfg) = Inr True \<longrightarrow> connect w (DB_PATH cfg) = Inr conn \<longrightarrow>
         (conn sql_events [SInt (min n 500)] = Inl e \<longrightarrow>
            do_GET cfg w rq = (Inr (ok_json (JArray [])), [''DB error: '' @ str_exc e])) \<and>
         (conn sql_events [SInt (min n 500)] = Inr rows \<longrightarrow>
            do_GET cfg w rq = (Inr (ok_json (JArray (map json_of_row (map dict rows)))), []) \<and>
            (0 \<le> n \<longrightarrow> honours_limit conn \<longrightarrow>
               length (map json_of_row (map dict rows)) \<le> 500)))) \<and>
   (asks_logs w rq 999999 \<longrightarrow>
      (\<exists>text. do_GET cfg w rq = (Inr (ok_json (logs_body 999999 text)), []) \<and>
         line_count text \<le> 1000))"
proof (intro conjI impI)
  assume a: "asks_logs w rq n"
  from do_GET_logs [OF a, of cfg]
  show "do_GET cfg w rq =
        (Inr (ok_json (logs_body n (read_log_file w (orchestrator_log cfg) (min n 1000)))), [])"
    by (simp add: api_logs_body)
  show "min n 1000 \<le> 1000" by simp
  assume n: "0 < n"
  from tail_of_log(1) [OF n, of 1000 w "orchestrator_log cfg"]
  show "line_count (read_log_file w (orchestrator_log cfg) (min n 1000)) \<le> 1000" by simp
  assume "file_text w (orchestrator_log cfg) = Some s"
  from tail_of_log(2) [OF n _ this, of 1000]
  show "readlines (read_log_file w (orchestrator_log cfg) (min n 1000))
      = drop (length (readlines s) - nat (min n 1000)) (readlines s)"
    by simp
next
  assume a: "asks_thread_logs w rq n"
  from do_GET_thread_logs [OF a, of cfg]
  show "do_GET cfg w rq =
        (Inr (ok_json (thread_logs_body (logs_thread_id rq) n
                (read_log_file w (thread_log cfg (logs_thread_id rq)) (min n 500)))), [])"
    by (simp add: api_thread_logs_body)
  show "min n 500 \<le> 500" by simp
  assume n: "0 < n"
  from tail_of_log(1) [OF n, of 500 w "thread_log cfg (logs_thread_id rq)"]
  show "line_count (read_log_file w (thread_log cfg (logs_thread_id rq)) (min n 500)) \<le> 500"
    by simp
  assume "file_text w (thread_log cfg (logs_thread_id rq)) = Some s"
  from tail_of_log(2) [OF n _ this, of 500]
  show "readlines (read_log_file w (thread_log cfg (logs_thread_id rq)) (min n 500))
      = drop (length (readlines s) - nat (min n 500)) (readlines s)"
    by simp
next
  assume a: "asks_events w rq n"
  show "min n 500 \<le> 500" by simp
  {
    assume "path_exists w (DB_PATH cfg) = Inr False"
    from query_db_absent [OF this] do_GET_events [OF a, of cfg]
    show "do_GET cfg w rq = (Inr (ok_json (JArray [])), [])"
      by (simp add: api_events_def bind_result_def send_json_def)
  }
  assume p: "path_exists w (DB_PATH cfg) = Inr True" and c: "connect w (DB_PATH cfg) = Inr conn"
  {
    assume "conn sql_events [SInt (min n 500)] = Inl e"
    from query_db_failed [OF p c this] do_GET_events [OF a, of cfg]
    show "do_GET cfg w rq = (Inr (ok_json (JArray [])), [''DB error: '' @ str_exc e])"
      by (simp add: api_events_def bind_result_def send_json_def)
  }
  assume r: "conn sql_events [SInt (min n 500)] = Inr rows"
  from query_db_rows [OF p c r] do_GET_events [OF a, of cfg]
  show "do_GET cfg w rq = (Inr (ok_json (JArray (map json_of_row (map dict rows)))), [])"
    by (simp add: api_events_def bind_result_def send_json_def)
  assume "0 \<le> n" and "honours_limit conn"
  with r have "length rows \<le> nat (min n 500)"
    by (simp add: honours_limit_def)
  then show "length (map json_of_row (map dict rows)) \<le> 500" by simp
next
  assume a: "asks_logs w rq 999999"
  have "line_count (read_log_file w (orchestrator_log cfg) 1000) \<le> 1000"
    using line_count_read_log_file [of 1000 w "orchestrator_log cfg"] by simp
  with do_GET_logs [OF a, of cfg]
  show "\<exists>text. do_GET cfg w rq = (Inr (ok_json (logs_body 999999 text)), []) \<and>
         line_count text \<le> 1000"
    by (auto simp: api_logs_body)
qed

lemma honours_limit_events_conn: "honours_limit events_conn"
  by (simp add: honours_limit_def events_conn_def)

lemma events_conn_500: "events_conn sql_events [SInt 500] = Inr (take 500 newest_first)"
  by (simp add: events_conn_def)

lemma length_newest_first: "length newest_first = 600"
  by (simp add: newest_first_def)

theorem effective_value_at_most_ceiling_witness:
  "asks_logs long_log_world (get_request ''/api/logs'' [(''lines'', [''999999''])]) 999999 \<and>
   (0::int) < 999999 \<and>
   file_text long_log_world (orchestrator_log example_cfg)
     = Some (concat (replicate 1200 log_line)) \<and>
   do_GET example_cfg long_log_world (get_request ''/api/logs'' [(''lines'', [''999999''])])
     = (Inr (ok_json (logs_body 999999 (concat (replicate 1000 log_line)))), []) \<and>
   line_count (concat (replicate 1000 log_line)) = 1000 \<and>
   asks_thread_logs long_log_world
     (get_request ''/api/thread/t1/logs'' [(''lines'', [''999999''])]) 999999 \<and>
   file_text long_log_world (thread_log example_cfg ''t1'')
     = Some (concat (replicate 600 log_line)) \<and>
   do_GET example_cfg long_log_world
       (get_request ''/api/thread/t1/logs'' [(''lines'', [''999999''])])
     = (Inr (ok_json (thread_logs_body ''t1'' 999999 (concat (replicate 500 log_line)))), []) \<and>
   line_count (concat (replicate 500 log_line)) = 500 \<and>
   asks_events events_world (get_request ''/api/events'' [(''limit'', [''999999''])]) 999999 \<and>
   (0::int) \<le> 999999 \<and>
   path_exists events_world (DB_PATH example_cfg) = Inr True \<and>
   connect events_world (DB_PATH example_cfg) = Inr events_conn \<and>
   honours_limit events_conn \<and>
   events_conn sql_events [SInt 500] = Inr (take 500 newest_first) \<and>
   do_GET example_cfg events_world (get_request ''/api/events'' [(''limit'', [''999999''])])
     = (Inr (ok_json (JArray (map json_of_row (map dict (take 500 newest_first))))), []) \<and>
   length (map json_of_row (map dict (take 500 newest_first))) = 500 \<and>
   asks_events example_world (get_request ''/api/events'' [(''limit'', [''999999''])]) 999999 \<and>
   path_exists example_world (DB_PATH example_cfg) = Inr False \<and>
   do_GET example_cfg example_world (get_request ''/api/events'' [(''limit'', [''999999''])])
     = (Inr (ok_json (JArray [])), []) \<and>
   asks_events locked_world (get_request ''/api/events'' [(''limit'', [''999999''])]) 999999 \<and>
   path_exists locked_world (DB_PATH example_cfg) = Inr True \<and>
   connect locked_world (DB_PATH example_cfg) = Inr (sqlite_conn True example_db no_other) \<and>
   sqlite_conn True example_db no_other sql_events [SInt 500]
     = Inl (OperationalError ''database is locked'') \<and>
   do_GET example_cfg locked_world (get_request ''/api/events'' [(''limit'', [''999999''])])
     = (Inr (ok_json (JArray [])), [''DB error: database is locked''])"
proof -
  let ?r1 = "get_request ''/api/logs'' [(''lines'', [''999999''])]"
  let ?r2 = "get_request ''/api/thread/t1/logs'' [(''lines'', [''999999''])]"
  let ?r3 = "get_request ''/api/events'' [(''limit'', [''999999''])]"
  have a1: "asks_logs long_log_world ?r1 999999"
    by (simp add: asks_logs_def get_request_def query_int_def long_int_str py_int_999999)
  have a2: "asks_thread_logs long_log_world ?r2 999999"
    by (simp add: asks_thread_logs_def get_request_def query_int_def long_int_str
        py_int_999999 startswith_def endswith_def)
  have a3: "asks_events events_world ?r3 999999"
    by (simp add: asks_events_def get_request_def query_int_def events_world_def
        with_store_fields py_int_999999)
  have a4: "asks_events example_world ?r3 999999"
    by (simp add: asks_events_def get_request_def query_int_def example_int_str py_int_999999)
  have a5: "asks_events locked_world ?r3 999999"
    by (simp add: asks_events_def get_request_def query_int_def locked_world_def
        with_store_fields py_int_999999)
  have t1: "read_log_file long_log_world (orchestrator_log example_cfg) 1000
      = concat (replicate 1000 log_line)"
    by (simp add: read_log_file_readable [OF long_orchestrator_log] slice_from_last
        readlines_long_log)
  have t2: "read_log_file long_log_world (thread_log example_cfg ''t1'') 500
      = concat (replicate 500 log_line)"
    by (simp add: read_log_file_readable [OF long_thread_log] slice_from_last
        readlines_long_log)
  have l: "line_count (concat (replicate 1000 log_line)) = 1000"
    "line_count (concat (replicate 500 log_line)) = 500"
    by (simp_all add: line_count_def readlines_long_log)
  have p3: "path_exists events_world (DB_PATH example_cfg) = Inr True"
    and c3: "connect events_world (DB_PATH example_cfg) = Inr events_conn"
    by (simp_all add: events_world_def with_store_fields)
  have p4: "path_exists example_world (DB_PATH example_cfg) = Inr False"
    by (simp add: example_world_def example_cfg_def)
  have p5: "path_exists locked_world (DB_PATH example_cfg) = Inr True"
    and c5: "connect locked_world (DB_PATH example_cfg)
      = Inr (sqlite_conn True example_db no_other)"
    by (simp_all add: locked_world_def with_store_fields)
  have f5: "sqlite_conn True example_db no_other sql_events [SInt 500]
      = Inl (OperationalError ''database is locked'')"
    by (simp add: sqlite_conn_def)
  from effective_value_at_most_ceiling [of long_log_world ?r1 999999 example_cfg] a1 t1
  have d1: "do_GET example_cfg long_log_world ?r1
     = (Inr (ok_json (logs_body 999999 (concat (replicate 1000 log_line)))), [])"
    by simp
  from effective_value_at_most_ceiling [of long_log_world ?r2 999999 example_cfg] a2 t2
  have d2: "do_GET example_cfg long_log_world ?r2
     = (Inr (ok_json (thread_logs_body ''t1'' 999999 (concat (replicate 500 log_line)))), [])"
    by (simp add: example_logs_thread_id)
  from effective_value_at_most_ceiling
    [of events_world ?r3 999999 example_cfg _ events_conn _ "take 500 newest_first"]
    a3 p3 c3 events_conn_500
  have d3: "do_GET example_cfg events_world ?r3
     = (Inr (ok_json (JArray (map json_of_row (map dict (take 500 newest_first))))), [])"
    by simp
  from effective_value_at_most_ceiling [of example_world ?r3 999999 example_cfg] a4 p4
  have d4: "do_GET example_cfg example_world ?r3 = (Inr (ok_json (JArray [])), [])"
    by simp
  from effective_value_at_most_ceiling
    [of locked_world ?r3 999999 example_cfg _ "sqlite_conn True example_db no_other"
      "OperationalError ''database is locked''"] a5 p5 c5 f5
  have d5: "do_GET example_cfg locked_world ?r3
     = (Inr (ok_json (JArray [])), [''DB error: database is locked''])"
    by simp
  have n: "length (map json_of_row (map dict (take 500 newest_first))) = 500"
    by (simp add: length_newest_first)
  from a1 a2 a3 a4 a5 long_orchestrator_log long_thread_log d1 d2 d3 d4 d5 l n p3 c3 p4 p5 c5
    f5 honours_limit_events_conn events_conn_500
  show ?thesis by simp
qed

text \<open>
  C9. The clamp bounds the requested value from above only. For every readable log
  file and every requested \<open>n \<le> 0\<close>, the log routes answer with status 200 and, as
  the content of the body, the text of the file without its first \<open>- n\<close> lines: for
  \<open>n = 0\<close> that is the whole file, and for \<open>n = - k\<close> it is every line but the first
  \<open>k\<close>.
\<close>

theorem lines_not_bounded_below:
  assumes "n \<le> 0"
  shows
    "(asks_logs w rq n \<longrightarrow> file_text w (orchestrator_log cfg) = Some s \<longrightarrow>
        do_GET cfg w rq =
          (Inr (ok_json (logs_body n (concat (drop (nat (- n)) (readlines s))))), [])) \<and>
     (asks_thread_logs w rq n \<longrightarrow> file_text w (thread_log cfg (logs_thread_id rq)) = Some s \<longrightarrow>
        do_GET cfg w rq =
          (Inr (ok_json (thread_logs_body (logs_thread_id rq) n
                  (concat (drop (nat (- n)) (readlines s))))), [])) \<and>
     readlines (concat (drop (nat (- n)) (readlines s))) = drop (nat (- n)) (readlines s) \<and>
     (n = 0 \<longrightarrow> concat (drop (nat (- n)) (readlines s)) = s)"
proof (intro conjI impI)
  assume a: "asks_logs w rq n" and f: "file_text w (orchestrator_log cfg) = Some s"
  from assms have m: "min n 1000 = n" by simp
  from do_GET_logs [OF a, of cfg] read_log_file_nonpositive [OF f assms]
  show "do_GET cfg w rq =
          (Inr (ok_json (logs_body n (concat (drop (nat (- n)) (readlines s))))), [])"
    by (simp add: api_logs_body m)
next
  assume a: "asks_thread_logs w rq n"
    and f: "file_text w (thread_log cfg (logs_thread_id rq)) = Some s"
  from assms have m: "min n 500 = n" by simp
  from do_GET_thread_logs [OF a, of cfg] read_log_file_nonpositive [OF f assms]
  show "do_GET cfg w rq =
          (Inr (ok_json (thread_logs_body (logs_thread_id rq) n
                  (concat (drop (nat (- n)) (readlines s))))), [])"
    by (simp add: api_thread_logs_body m)
next
  show "readlines (concat (drop (nat (- n)) (readlines s))) = drop (nat (- n)) (readlines s)"
    by (rule readlines_concat_drop)
next
  assume "n = 0"
  then show "concat (drop (nat (- n)) (readlines s)) = s"
    by (simp add: concat_readlines)
qed

theorem lines_not_bounded_below_witness:
  "(0::int) \<le> 0 \<and> (- 2::int) \<le> 0 \<and>
   asks_logs example_world (get_request ''/api/logs'' [(''lines'', [''0''])]) 0 \<and>
   file_text example_world (orchestrator_log example_cfg) = Some three_lines \<and>
   do_GET example_cfg example_world (get_request ''/api/logs'' [(''lines'', [''0''])])
     = (Inr (ok_json (logs_body 0 three_lines)), []) \<and>
   asks_logs example_world (get_request ''/api/logs'' [(''lines'', [''-2''])]) (- 2) \<and>
   do_GET example_cfg example_world (get_request ''/api/logs'' [(''lines'', [''-2''])])
     = (Inr (ok_json (logs_body (- 2) (''three'' @ [newline]))), []) \<and>
   asks_thread_logs example_world (get_request ''/api/thread/t1/logs'' [(''lines'', [''0''])]) 0 \<and>
   file_text example_world (thread_log example_cfg ''t1'') = Some two_lines \<and>
   do_GET example_cfg example_world (get_request ''/api/thread/t1/logs'' [(''lines'', [''0''])])
     = (Inr (ok_json (thread_logs_body ''t1'' 0 two_lines)), []) \<and>
   asks_logs long_log_world (get_request ''/api/logs'' [(''lines'', [''0''])]) 0 \<and>
   do_GET example_cfg long_log_world (get_request ''/api/logs'' [(''lines'', [''0''])])
     = (Inr (ok_json (logs_body 0 (concat (replicate 1200 log_line)))), []) \<and>
   line_count (concat (replicate 1200 log_line)) = 1200"
proof -
  let ?r1 = "get_request ''/api/logs'' [(''lines'', [''0''])]"
  let ?r2 = "get_request ''/api/logs'' [(''lines'', [''-2''])]"
  let ?r3 = "get_request ''/api/thread/t1/logs'' [(''lines'', [''0''])]"
  have z: "(0::int) \<le> 0" and m: "(- 2::int) \<le> 0" by simp_all
  have a1: "asks_logs example_world ?r1 0"
    by (simp add: asks_logs_def get_request_def query_int_def example_int_str py_int_0)
  have a2: "asks_logs example_world ?r2 (- 2)"
    by (simp add: asks_logs_def get_request_def query_int_def example_int_str py_int_minus_2)
  have a3: "asks_thread_logs example_world ?r3 0"
    by (simp add: asks_thread_logs_def get_request_def query_int_def example_int_str py_int_0
        startswith_def endswith_def)
  have a4: "asks_logs long_log_world ?r1 0"
    by (simp add: asks_logs_def get_request_def query_int_def long_int_str py_int_0)
  from lines_not_bounded_below [OF z, of example_world ?r1 example_cfg three_lines]
    a1 example_orchestrator_log
  have c1: "do_GET example_cfg example_world ?r1
     = (Inr (ok_json (logs_body 0 three_lines)), [])"
    by (simp add: concat_readlines)
  from lines_not_bounded_below [OF m, of example_world ?r2 example_cfg three_lines]
    a2 example_orchestrator_log
  have c2: "do_GET example_cfg example_world ?r2
     = (Inr (ok_json (logs_body (- 2) (''three'' @ [newline]))), [])"
    by (simp add: readlines_three_lines)
  from lines_not_bounded_below [OF z, of example_world ?r3 example_cfg two_lines]
    a3 example_thread_log
  have c3: "do_GET example_cfg example_world ?r3
     = (Inr (ok_json (thread_logs_body ''t1'' 0 two_lines)), [])"
    by (simp add: example_logs_thread_id concat_readlines)
  from lines_not_bounded_below
    [OF z, of long_log_world ?r1 example_cfg "concat (replicate 1200 log_line)"]
    a4 long_orchestrator_log
  have c4: "do_GET example_cfg long_log_world ?r1
     = (Inr (ok_json (logs_body 0 (concat (replicate 1200 log_line)))), [])"
    by (simp add: concat_readlines)
  have l: "line_count (concat (replicate 1200 log_line)) = 1200"
    by (simp add: line_count_def readlines_long_log)
  from z m a1 a2 a3 a4 c1 c2 c3 c4 l example_orchestrator_log example_thread_log
  show ?thesis by simp
qed

text \<open>
  C10. For every request to \<open>/api/logs\<close> or \<open>/api/thread/{id}/logs\<close> whose \<open>lines\<close>
  the interpreter converts to \<open>n\<close>, the response has status 200 and the field \<open>lines\<close>
  of its body is \<open>n\<close> itself, while the content is the tail read with the clamped
  value; above the ceiling of the route the two differ. A request for 999999 lines of
  \<open>/api/logs\<close> is answered with \<open>lines\<close> 999999 and a text of at most 1000 lines.
\<close>

theorem lines_field_echoes_request:
  "(asks_logs w rq n \<longrightarrow>
      do_GET cfg w rq =
        (Inr (ok_json (JObject
           [(''file'', JString ''orchestrator.log''),
            (''lines'', JInt n),
            (''content'', JString (read_log_file w (orchestrator_log cfg) (min n 1000)))])), []) \<and>
      (1000 < n \<longrightarrow> JInt n \<noteq> JInt (min n 1000))) \<and>
   (asks_thread_logs w rq n \<longrightarrow>
      do_GET cfg w rq =
        (Inr (ok_json (JObject
           [(''thread_id'', JString (logs_thread_id rq)),
            (''lines'', JInt n),
            (''content'',
               JString (read_log_file w (thread_log cfg (logs_thread_id rq)) (min n 500)))])), []) \<and>
      (500 < n \<longrightarrow> JInt n \<noteq> JInt (min n 500))) \<and>
   (asks_logs w rq 999999 \<longrightarrow>
      (\<exists>text. do_GET cfg w rq =
         (Inr (ok_json (JObject
            [(''file'', JString ''orchestrator.log''),
             (''lines'', JInt 999999),
             (''content'', JString text)])), []) \<and>
         line_count text \<le> 1000))"
proof (intro conjI impI)
  assume a: "asks_logs w rq n"
  from do_GET_logs [OF a, of cfg]
  show "do_GET cfg w rq =
        (Inr (ok_json (JObject
           [(''file'', JString ''orchestrator.log''),
            (''lines'', JInt n),
            (''content'', JString (read_log_file w (orchestrator_log cfg) (min n 1000)))])), [])"
    by (simp add: api_logs_body logs_body_def)
  assume "1000 < n"
  then show "JInt n \<noteq> JInt (min n 1000)" by simp
next
  assume a: "asks_thread_logs w rq n"
  from do_GET_thread_logs [OF a, of cfg]
  show "do_GET cfg w rq =
        (Inr (ok_json (JObject
           [(''thread_id'', JString (logs_thread_id rq)),
            (''lines'', JInt n),
            (''content'',
               JString (read_log_file w (thread_log cfg (logs_thread_id rq)) (min n 500)))])), [])"
    by (simp add: api_thread_logs_body thread_logs_body_def)
  assume "500 < n"
  then show "JInt n \<noteq> JInt (min n 500)" by simp
next
  assume a: "asks_logs w rq 999999"
  have "line_count (read_log_file w (orchestrator_log cfg) 1000) \<le> 1000"
    using line_count_read_log_file [of 1000 w "orchestrator_log cfg"] by simp
  with do_GET_logs [OF a, of cfg]
  show "\<exists>text. do_GET cfg w rq =
         (Inr (ok_json (JObject
            [(''file'', JString ''orchestrator.log''),
             (''lines'', JInt 999999),
             (''content'', JString text)])), []) \<and>
         line_count text \<le> 1000"
    by (auto simp: api_logs_body logs_body_def)
qed

theorem lines_field_echoes_request_witness:
  "asks_logs long_log_world (get_request ''/api/logs'' [(''lines'', [''999999''])]) 999999 \<and>
   asks_thread_logs long_log_world
     (get_request ''/api/thread/t1/logs'' [(''lines'', [''999999''])]) 999999 \<and>
   (1000::int) < 999999 \<and> (500::int) < 999999 \<and>
   do_GET example_cfg long_log_world (get_request ''/api/logs'' [(''lines'', [''999999''])])
     = (Inr (ok_json (JObject
          [(''file'', JString ''orchestrator.log''),
           (''lines'', JInt 999999),
           (''content'', JString (concat (replicate 1000 log_line)))])), []) \<and>
   do_GET example_cfg long_log_world
       (get_request ''/api/thread/t1/logs'' [(''lines'', [''999999''])])
     = (Inr (ok_json (JObject
          [(''thread_id'', JString ''t1''),
           (''lines'', JInt 999999),
           (''content'', JString (concat (replicate 500 log_line)))])), []) \<and>
   line_count (concat (replicate 1000 log_line)) = 1000"
proof -
  let ?r1 = "get_request ''/api/logs'' [(''lines'', [''999999''])]"
  let ?r2 = "get_request ''/api/thread/t1/logs'' [(''lines'', [''999999''])]"
  have a1: "asks_logs long_log_world ?r1 999999"
    by (simp add: asks_logs_def get_request_def query_int_def long_int_str py_int_999999)
  have a2: "asks_thread_logs long_log_world ?r2 999999"
    by (simp add: asks_thread_logs_def get_request_def query_int_def long_int_str
        py_int_999999 startswith_def endswith_def)
  have t1: "read_log_file long_log_world (orchestrator_log example_cfg) 1000
      = concat (replicate 1000 log_line)"
    by (simp add: read_log_file_readable [OF long_orchestrator_log] slice_from_last
        readlines_long_log)
  have t2: "read_log_file long_log_world (thread_log example_cfg ''t1'') 500
      = concat (replicate 500 log_line)"
    by (simp add: read_log_file_readable [OF long_thread_log] slice_from_last
        readlines_long_log)
  from lines_field_echoes_request [of long_log_world ?r1 999999 example_cfg] a1 t1
  have c1: "do_GET example_cfg long_log_world ?r1
     = (Inr (ok_json (JObject
          [(''file'', JString ''orchestrator.log''),
           (''lines'', JInt 999999),
           (''content'', JString (concat (replicate 1000 log_line)))])), [])"
    by simp
  from lines_field_echoes_request [of long_log_world ?r2 999999 example_cfg] a2 t2
  have c2: "do_GET example_cfg long_log_world ?r2
     = (Inr (ok_json (JObject
          [(''thread_id'', JString ''t1''),
           (''lines'', JInt 999999),
           (''content'', JString (concat (replicate 500 log_line)))])), [])"
    by (simp add: example_logs_thread_id)
  have l: "line_count (concat (replicate 1000 log_line)) = 1000"
    by (simp add: line_count_def readlines_long_log)
  from a1 a2 c1 c2 l show ?thesis by simp
qed

section \<open>Claims about the access to the store\<close>

lemma scalar_db_absent:
  "path_exists w (DB_PATH cfg) = Inr False \<Longrightarrow> scalar_db cfg w sql ps = (Inr (SInt 0), [])"
  by (simp add: scalar_db_def get_db_absent)

lemma scalar_db_failed:
  "path_exists w (DB_PATH cfg) = Inr True \<Longrightarrow> connect w (DB_PATH cfg) = Inr conn \<Longrightarrow>
     conn sql ps = Inl e \<Longrightarrow>
     scalar_db cfg w sql ps = (Inr (SInt 0), [''DB error: '' @ str_exc e])"
  by (simp add: scalar_db_def get_db_open)

lemma scalar_db_unopenable:
  "path_exists w (DB_PATH cfg) = Inr True \<Longrightarrow> connect w (DB_PATH cfg) = Inl e \<Longrightarrow>
     scalar_db cfg w sql ps = (Inl e, [])"
  by (simp add: scalar_db_def get_db_unopenable)

text \<open>
  C2. \<open>query_db\<close> and \<open>scalar_db\<close> call \<open>get_db\<close> before their \<open>try\<close>. When the
  path of the store exists but \<open>sqlite3.connect\<close> cannot open it, the
  \<open>OperationalError\<close> of \<open>connect\<close> leaves both functions: they raise to their caller
  and neither return the empty list or 0 nor print the error. When the file is absent,
  and when the statement fails on an open connection, they do return the empty list
  and 0 (\<open>query_db_absent\<close>, \<open>query_db_failed\<close>, \<open>scalar_db_absent\<close>,
  \<open>scalar_db_failed\<close>).
\<close>

theorem unopenable_store_raises_to_caller:
  "path_exists unopenable_world (DB_PATH example_cfg) = Inr True \<and>
   connect unopenable_world (DB_PATH example_cfg)
     = Inl (OperationalError ''unable to open database file'') \<and>
   query_db example_cfg unopenable_world sql_count_threads []
     = (Inl (OperationalError ''unable to open database file''), []) \<and>
   scalar_db example_cfg unopenable_world sql_count_threads []
     = (Inl (OperationalError ''unable to open database file''), [])"
proof -
  have p: "path_exists unopenable_world (DB_PATH example_cfg) = Inr True"
    and c: "connect unopenable_world (DB_PATH example_cfg)
      = Inl (OperationalError ''unable to open database file'')"
    by (simp_all add: unopenable_world_def with_store_fields)
  from p c query_db_unopenable [OF p c] scalar_db_unopenable [OF p c] show ?thesis by simp
qed

section \<open>Claims about the status and thread routes\<close>

lemma sql_texts_distinct:
  "sql_count_status ''running'' \<noteq> sql_count_threads"
  "sql_count_status ''ready'' \<noteq> sql_count_threads"
  "sql_count_status ''ready'' \<noteq> sql_count_status ''running''"
  "sql_count_pending \<noteq> sql_count_threads"
  "sql_count_pending \<noteq> sql_count_status ''running''"
  "sql_count_pending \<noteq> sql_count_status ''ready''"
  "sql_thread_by_id \<noteq> sql_count_threads"
  "sql_thread_by_id \<noteq> sql_count_status ''running''"
  "sql_thread_by_id \<noteq> sql_count_status ''ready''"
  "sql_thread_by_id \<noteq> sql_count_pending"
  by (simp_all add: sql_count_threads_def sql_count_status_def sql_count_pending_def
      sql_thread_by_id_def quoted_def)

lemma sqlite_conn_counts:
  "sqlite_conn False db other sql_count_threads [] = count_rows db ''threads'' (\<lambda>r. True)"
  "sqlite_conn False db other (sql_count_status ''running'') [] =
     count_rows db ''threads'' (has_status ''running'')"
  "sqlite_conn False db other (sql_count_status ''ready'') [] =
     count_rows db ''threads'' (has_status ''ready'')"
  "sqlite_conn False db other sql_count_pending [] = count_rows db ''events'' unprocessed"
  by (simp_all add: sqlite_conn_def sql_texts_distinct)

lemma sqlite_conn_thread_by_id:
  "sqlite_conn False db other sql_thread_by_id [v] =
     (case db ''threads'' of
        None \<Rightarrow> Inl (OperationalError ''no such table: threads'')
      | Some rs \<Rightarrow> Inr (filter (has_id v) rs))"
  by (simp add: sqlite_conn_def sql_texts_distinct split: option.split)

lemma sqlite_conn_locked:
  "sqlite_conn True db other sql ps = Inl (OperationalError ''database is locked'')"
  by (simp add: sqlite_conn_def)

text \<open>
  The scalar of a counting statement is the number of rows of the table that the
  statement keeps, when the store is absent or open and not locked.
\<close>

lemma scalar_db_count:
  assumes "serves cfg w st other"
    and "\<And>db. sqlite_conn False db other sql [] = count_rows db tbl keep"
  shows "\<exists>out. scalar_db cfg w sql []
     = (Inr (SInt (int (length (filter keep (table_rows st tbl))))), out)"
proof (cases st)
  case None
  with assms(1) show ?thesis
    by (simp add: serves_def scalar_db_absent table_rows_def)
next
  case (Some db)
  with assms(1) have p: "path_exists w (DB_PATH cfg) = Inr True"
    and c: "connect w (DB_PATH cfg) = Inr (sqlite_conn False db other)"
    by (simp_all add: serves_def)
  show ?thesis
    by (cases "db tbl")
      (simp_all add: scalar_db_def get_db_open [OF p c] assms(2) count_rows_def
        table_rows_def Some)
qed

lemma bind_result_value:
  "m = (Inr x, out) \<Longrightarrow> bind_result m f = (fst (f x), out @ snd (f x))"
  by (simp add: bind_result_def case_prod_unfold)

lemma bind_result_raise: "m = (Inl e, out) \<Longrightarrow> bind_result m f = (Inl e, out)"
  by (simp add: bind_result_def)

text \<open>
  C7, as the code has it. In every state of the store in which the file of the store
  is absent, or opens and is not locked, \<open>GET /api/status\<close> answers with status 200
  and a body in which \<open>threads.total\<close>, \<open>threads.running\<close> and \<open>threads.ready\<close> are
  the numbers of rows of the table \<open>threads\<close> that are there at all, that have status
  \<open>running\<close>, and that have status \<open>ready\<close>, and \<open>events_pending\<close> is the number of
  rows of \<open>events\<close> with \<open>processed = 0\<close>; a table that is missing has no rows.
\<close>

theorem status_counts_match_store:
  assumes "serves cfg w st other" and "req_path rq = ''/api/status''"
  shows "\<exists>out.
     do_GET cfg w rq =
       (Inr (ok_json (JObject
          [(''threads'', JObject
              [(''total'', JInt (int (length (table_rows st ''threads'')))),
               (''running'', JInt (int (length (filter (has_status ''running'')
                                                  (table_rows st ''threads''))))),
               (''ready'', JInt (int (length (filter (has_status ''ready'')
                                                (table_rows st ''threads'')))))]),
           (''events_pending'', JInt (int (length (filter unprocessed
                                                      (table_rows st ''events''))))),
           (''orchestrator_running'',
              JBool (is_pid_running w (Join (DATA_DIR cfg) ''orchestrator.pid''))),
           (''api_running'',
              JBool (is_pid_running w (Join (DATA_DIR cfg) ''api-server.pid''))),
           (''timestamp'', JString (utcnow w @ ''Z''))])), out)"
proof -
  obtain o1 where t: "scalar_db cfg w sql_count_threads [] =
      (Inr (SInt (int (length (filter (\<lambda>r. True) (table_rows st ''threads''))))), o1)"
    using scalar_db_count [OF assms(1), of sql_count_threads "''threads''" "\<lambda>r. True"]
    by (auto simp: sqlite_conn_counts)
  obtain o2 where r: "scalar_db cfg w (sql_count_status ''running'') [] =
      (Inr (SInt (int (length (filter (has_status ''running'') (table_rows st ''threads''))))), o2)"
    using scalar_db_count [OF assms(1), of "sql_count_status ''running''" "''threads''"
        "has_status ''running''"]
    by (auto simp: sqlite_conn_counts)
  obtain o3 where y: "scalar_db cfg w (sql_count_status ''ready'') [] =
      (Inr (SInt (int (length (filter (has_status ''ready'') (table_rows st ''threads''))))), o3)"
    using scalar_db_count [OF assms(1), of "sql_count_status ''ready''" "''threads''"
        "has_status ''ready''"]
    by (auto simp: sqlite_conn_counts)
  obtain o4 where e: "scalar_db cfg w sql_count_pending [] =
      (Inr (SInt (int (length (filter unprocessed (table_rows st ''events''))))), o4)"
    using scalar_db_count [OF assms(1), of sql_count_pending "''events''" unprocessed]
    by (auto simp: sqlite_conn_counts)
  from assms(2) show ?thesis
    by (simp add: do_GET_def api_status_def t r y e bind_result_def send_json_def)
qed

lemma example_counts:
  "length (table_rows (Some example_db) ''threads'') = 5"
  "length (filter (has_status ''running'') (table_rows (Some example_db) ''threads'')) = 2"
  "length (filter (has_status ''ready'') (table_rows (Some example_db) ''threads'')) = 1"
  "length (filter unprocessed (table_rows (Some example_db) ''events'')) = 2"
  by (simp_all add: table_rows_def example_db_def has_status_def unprocessed_def
      thread_row_def event_row_def)

lemma no_pid_files:
  "is_pid_running (with_store c) (Join (DATA_DIR example_cfg) ''orchestrator.pid'') = False"
  "is_pid_running (with_store c) (Join (DATA_DIR example_cfg) ''api-server.pid'') = False"
  by (simp_all add: is_pid_running_def with_store_fields example_world_def
      orchestrator_log_def thread_log_def example_cfg_def)

theorem status_counts_match_store_witness:
  "serves example_cfg store_world (Some example_db) no_other \<and>
   req_path (get_request ''/api/status'' []) = ''/api/status'' \<and>
   length (table_rows (Some example_db) ''threads'') = 5 \<and>
   (\<exists>out.
      do_GET example_cfg store_world (get_request ''/api/status'' []) =
        (Inr (ok_json (JObject
           [(''threads'', JObject [(''total'', JInt 5), (''running'', JInt 2), (''ready'', JInt 1)]),
            (''events_pending'', JInt 2),
            (''orchestrator_running'', JBool False),
            (''api_running'', JBool False),
            (''timestamp'', JString ''2024-01-01T00:00:00Z'')])), out)) \<and>
   serves example_cfg example_world None no_other \<and>
   (\<exists>out.
      do_GET example_cfg example_world (get_request ''/api/status'' []) =
        (Inr (ok_json (JObject
           [(''threads'', JObject [(''total'', JInt 0), (''running'', JInt 0), (''ready'', JInt 0)]),
            (''events_pending'', JInt 0),
            (''orchestrator_running'', JBool False),
            (''api_running'', JBool False),
            (''timestamp'', JString ''2024-01-01T00:00:00Z'')])), out))"
proof -
  have s: "serves example_cfg store_world (Some example_db) no_other"
    by (simp add: serves_def store_world_def with_store_fields)
  have s0: "serves example_cfg example_world None no_other"
    by (simp add: serves_def example_world_def example_cfg_def)
  have p: "req_path (get_request ''/api/status'' []) = ''/api/status''"
    by (simp add: get_request_def)
  have u: "utcnow store_world = ''2024-01-01T00:00:00''"
    "is_pid_running store_world (Join (DATA_DIR example_cfg) ''orchestrator.pid'') = False"
    "is_pid_running store_world (Join (DATA_DIR example_cfg) ''api-server.pid'') = False"
    by (simp_all add: store_world_def with_store_fields no_pid_files)
  have u0: "utcnow example_world = ''2024-01-01T00:00:00''"
    "is_pid_running example_world (Join (DATA_DIR example_cfg) ''orchestrator.pid'') = False"
    "is_pid_running example_world (Join (DATA_DIR example_cfg) ''api-server.pid'') = False"
    by (simp_all add: example_world_def is_pid_running_def orchestrator_log_def thread_log_def
        example_cfg_def)
  have n0: "table_rows None ''threads'' = []" "table_rows None ''events'' = []"
    by (simp_all add: table_rows_def)
  from status_counts_match_store [OF s p]
  have c1: "\<exists>out.
      do_GET example_cfg store_world (get_request ''/api/status'' []) =
        (Inr (ok_json (JObject
           [(''threads'', JObject [(''total'', JInt 5), (''running'', JInt 2), (''ready'', JInt 1)]),
            (''events_pending'', JInt 2),
            (''orchestrator_running'', JBool False),
            (''api_running'', JBool False),
            (''timestamp'', JString ''2024-01-01T00:00:00Z'')])), out)"
    unfolding example_counts u by simp
  from status_counts_match_store [OF s0 p]
  have c2: "\<exists>out.
      do_GET example_cfg example_world (get_request ''/api/status'' []) =
        (Inr (ok_json (JObject
           [(''threads'', JObject [(''total'', JInt 0), (''running'', JInt 0), (''ready'', JInt 0)]),
            (''events_pending'', JInt 0),
            (''orchestrator_running'', JBool False),
            (''api_running'', JBool False),
            (''timestamp'', JString ''2024-01-01T00:00:00Z'')])), out)"
    unfolding n0 u0 by simp
  from s s0 p c1 c2 example_counts(1) show ?thesis by blast
qed

text \<open>
  C7, as the claim states it, fails in two states of the store that holds the five
  threads of the example. While a writer holds the lock of the database every counting
  statement fails and is reported as 0, so that \<open>total\<close> is 0 and not 5. When the
  path of the store exists but cannot be opened as a database, \<open>sqlite3.connect\<close>
  raises, the exception leaves \<open>do_GET\<close>, and nothing is reported.
\<close>

theorem locked_store_counterexample:
  "connect locked_world (DB_PATH example_cfg) = Inr (sqlite_conn True example_db no_other) \<and>
   length (table_rows (Some example_db) ''threads'') = 5 \<and>
   do_GET example_cfg locked_world (get_request ''/api/status'' []) =
     (Inr (ok_json (JObject
        [(''threads'', JObject [(''total'', JInt 0), (''running'', JInt 0), (''ready'', JInt 0)]),
         (''events_pending'', JInt 0),
         (''orchestrator_running'', JBool False),
         (''api_running'', JBool False),
         (''timestamp'', JString ''2024-01-01T00:00:00Z'')])),
      [''DB error: database is locked'', ''DB error: database is locked'',
       ''DB error: database is locked'', ''DB error: database is locked'']) \<and>
   connect unopenable_world (DB_PATH example_cfg)
     = Inl (OperationalError ''unable to open database file'') \<and>
   do_GET example_cfg unopenable_world (get_request ''/api/status'' []) =
     (Inl (OperationalError ''unable to open database file''), [])"
proof -
  have p: "path_exists locked_world (DB_PATH example_cfg) = Inr True"
    and c: "connect locked_world (DB_PATH example_cfg)
      = Inr (sqlite_conn True example_db no_other)"
    by (simp_all add: locked_world_def with_store_fields)
  have q: "\<And>sql. scalar_db example_cfg locked_world sql []
      = (Inr (SInt 0), [''DB error: database is locked''])"
    using scalar_db_failed [OF p c sqlite_conn_locked] by simp
  have d: "do_GET example_cfg locked_world (get_request ''/api/status'' []) =
     (Inr (ok_json (JObject
        [(''threads'', JObject [(''total'', JInt 0), (''running'', JInt 0), (''ready'', JInt 0)]),
         (''events_pending'', JInt 0),
         (''orchestrator_running'', JBool False),
         (''api_running'', JBool False),
         (''timestamp'', JString ''2024-01-01T00:00:00Z'')])),
      [''DB error: database is locked'', ''DB error: database is locked'',
       ''DB error: database is locked'', ''DB error: database is locked''])"
  proof -
    have u: "utcnow locked_world = ''2024-01-01T00:00:00''"
      "is_pid_running locked_world (Join (DATA_DIR example_cfg) ''orchestrator.pid'') = False"
      "is_pid_running locked_world (Join (DATA_DIR example_cfg) ''api-server.pid'') = False"
      by (simp_all add: locked_world_def with_store_fields no_pid_files)
    show ?thesis
      by (simp add: do_GET_def get_request_def api_status_def q u bind_result_def
          send_json_def)
  qed
  have p': "path_exists unopenable_world (DB_PATH example_cfg) = Inr True"
    and c': "connect unopenable_world (DB_PATH example_cfg)
      = Inl (OperationalError ''unable to open database file'')"
    by (simp_all add: unopenable_world_def with_store_fields)
  have d': "do_GET example_cfg unopenable_world (get_request ''/api/status'' []) =
     (Inl (OperationalError ''unable to open database file''), [])"
    by (simp add: do_GET_def get_request_def api_status_def scalar_db_unopenable [OF p' c']
        bind_result_def)
  from c d c' d' example_counts(1) show ?thesis by simp
qed

lemma do_GET_thread_detail:
  assumes "startswith (req_path rq) ''/api/thread/''" and "\<not> endswith (req_path rq) ''/logs''"
  shows "do_GET cfg w rq =
     bind_result (api_thread_detail cfg w (replace (req_path rq) ''/api/thread/'' ''''))
       (\<lambda>data. (Inr (send_json data), []))"
proof -
  from assms(1) have ne: "req_path rq \<noteq> ''/''" "req_path rq \<noteq> ''/index.html''"
    "req_path rq \<noteq> ''/api/status''" "req_path rq \<noteq> ''/api/threads''"
    by (auto simp: startswith_def)
  show ?thesis using assms ne by (simp add: do_GET_def Let_def)
qed

text \<open>
  What the thread route gets right: when the id that the handler looks up has no row,
  in a store that is absent or open and not locked, the answer is the in-band error.
\<close>

lemma api_thread_detail_absent:
  assumes "serves cfg w st other"
    and "filter (has_id (SText t)) (table_rows st ''threads'') = []"
  shows "\<exists>out. api_thread_detail cfg w t = (Inr not_found_body, out)"
proof (cases st)
  case None
  with assms(1) show ?thesis
    by (simp add: serves_def api_thread_detail_def query_db_absent bind_result_def
        not_found_body_def)
next
  case (Some db)
  with assms(1) have p: "path_exists w (DB_PATH cfg) = Inr True"
    and c: "connect w (DB_PATH cfg) = Inr (sqlite_conn False db other)"
    by (simp_all add: serves_def)
  show ?thesis
  proof (cases "db ''threads''")
    case None
    then have "sqlite_conn False db other sql_thread_by_id [SText t]
        = Inl (OperationalError ''no such table: threads'')"
      by (simp add: sqlite_conn_thread_by_id)
    from query_db_failed [OF p c this] show ?thesis
      by (simp add: api_thread_detail_def bind_result_def not_found_body_def)
  next
    case (Some rs)
    with assms(2) \<open>st = Some db\<close> have "filter (has_id (SText t)) rs = []"
      by (simp add: table_rows_def)
    with Some have "sqlite_conn False db other sql_thread_by_id [SText t] = Inr []"
      by (simp add: sqlite_conn_thread_by_id)
    from query_db_rows [OF p c this] show ?thesis
      by (simp add: api_thread_detail_def bind_result_def not_found_body_def)
  qed
qed

text \<open>
  C3. The thread id \<open>/api/thread/t1\<close> has no row in the example store. The request
  for \<open>/api/thread//api/thread/t1\<close> is dispatched to the thread route, where
  \<open>path.replace('/api/thread/', '')\<close> removes every occurrence of the prefix and not
  only the first: the handler looks up \<open>t1\<close> and answers with the row of that other
  thread, where the answer for an id without a row is the in-band error.
\<close>

theorem repeated_prefix_returns_other_thread:
  "filter (has_id (SText ''/api/thread/t1'')) (table_rows (Some example_db) ''threads'') = [] \<and>
   serves example_cfg store_world (Some example_db) no_other \<and>
   replace ''/api/thread//api/thread/t1'' ''/api/thread/'' '''' = ''t1'' \<and>
   do_GET example_cfg store_world (get_request ''/api/thread//api/thread/t1'' [])
     = (Inr (ok_json (JObject
          [(''id'', JString ''t1''), (''name'', JString ''thread t1''),
           (''status'', JString ''running'')])), []) \<and>
   JObject [(''id'', JString ''t1''), (''name'', JString ''thread t1''),
            (''status'', JString ''running'')] \<noteq> not_found_body"
proof -
  let ?rq = "get_request ''/api/thread//api/thread/t1'' []"
  have f: "filter (has_id (SText ''/api/thread/t1'')) (table_rows (Some example_db) ''threads'') = []"
    by (simp add: table_rows_def example_db_def has_id_def thread_row_def)
  have s: "serves example_cfg store_world (Some example_db) no_other"
    by (simp add: serves_def store_world_def with_store_fields)
  then have p: "path_exists store_world (DB_PATH example_cfg) = Inr True"
    and c: "connect store_world (DB_PATH example_cfg) = Inr (sqlite_conn False example_db no_other)"
    by (simp_all add: serves_def)
  have r: "replace ''/api/thread//api/thread/t1'' ''/api/thread/'' '''' = ''t1''"
    by (simp add: startswith_def)
  have a: "startswith (req_path ?rq) ''/api/thread/''" "\<not> endswith (req_path ?rq) ''/logs''"
    by (simp_all add: get_request_def startswith_def endswith_def)
  have q: "sqlite_conn False example_db no_other sql_thread_by_id [SText ''t1'']
      = Inr [thread_row ''t1'' ''running'']"
    by (simp add: sqlite_conn_thread_by_id example_db_def has_id_def thread_row_def)
  have d: "dict (thread_row ''t1'' ''running'') = thread_row ''t1'' ''running''"
    by (simp add: dict_def thread_row_def lower_char_def)
  have j: "json_of_row (thread_row ''t1'' ''running'')
      = JObject [(''id'', JString ''t1''), (''name'', JString ''thread t1''),
                 (''status'', JString ''running'')]"
    by (simp add: json_of_row_def thread_row_def)
  have t: "api_thread_detail example_cfg store_world ''t1''
      = (Inr (JObject [(''id'', JString ''t1''), (''name'', JString ''thread t1''),
                       (''status'', JString ''running'')]), [])"
    by (simp add: api_thread_detail_def query_db_rows [OF p c q] d j bind_result_def)
  have i: "replace (req_path ?rq) ''/api/thread/'' '''' = ''t1''"
    by (simp add: get_request_def startswith_def)
  have "do_GET example_cfg store_world ?rq
      = bind_result (api_thread_detail example_cfg store_world ''t1'')
          (\<lambda>data. (Inr (send_json data), []))"
    using do_GET_thread_detail [OF a, of example_cfg store_world] by (simp only: i)
  then have g: "do_GET example_cfg store_world ?rq
     = (Inr (ok_json (JObject
          [(''id'', JString ''t1''), (''name'', JString ''thread t1''),
           (''status'', JString ''running'')])), [])"
    by (simp only: t) (simp add: bind_result_def send_json_def)
  from f s r g show ?thesis by (simp add: not_found_body_def)
qed

section \<open>Claims about liveness and location\<close>

text \<open>
  What \<open>is_pid_running\<close> gets right: it is true exactly when the file can be read, its
  stripped text converts to an integer, and the probe of that integer returns.
\<close>

lemma is_pid_running_iff:
  "is_pid_running w p \<longleftrightarrow>
     (\<exists>s pid. file_text w p = Some s \<and> int_str w (strip s) = Inr pid \<and> os_kill0 w pid)"
  by (auto simp: is_pid_running_def split: option.splits sum.splits)

lemma is_pid_running_positive:
  "file_text w p = Some s \<Longrightarrow> int_str w (strip s) = Inr pid \<Longrightarrow> 0 < pid \<Longrightarrow>
     pid \<le> 2147483647 \<Longrightarrow> is_pid_running w p = process_alive w pid"
  by (simp add: is_pid_running_def os_kill0_def)

text \<open>
  C8. \<open>is_pid_running\<close> is documented to check whether the process from the PID file
  is running. For a PID file that holds \<open>0\<close> it returns true although no process has
  the id 0: \<open>os.kill(0, 0)\<close> probes the process group of the server itself, and the
  server is there to answer. A missing file, text that is no number and the id of a
  process that is gone give false.
\<close>

theorem pid_zero_reported_running:
  "file_text pid_world (Join (Path ''.claude-threads'') ''zero.pid'') = Some ''0'' \<and>
   int_str pid_world (strip ''0'') = Inr 0 \<and>
   \<not> process_alive pid_world 0 \<and>
   is_pid_running pid_world (Join (Path ''.claude-threads'') ''zero.pid'') \<and>
   is_pid_running pid_world (Join (Path ''.claude-threads'') ''orchestrator.pid'') \<and>
   \<not> is_pid_running pid_world (Join (Path ''.claude-threads'') ''missing.pid'') \<and>
   \<not> is_pid_running pid_world (Join (Path ''.claude-threads'') ''api-server.pid'') \<and>
   \<not> is_pid_running pid_world (Join (Path ''.claude-threads'') ''stale.pid'')"
proof -
  let ?d = "Path ''.claude-threads''"
  have f: "file_text pid_world (Join ?d ''zero.pid'') = Some ''0''"
    "file_text pid_world (Join ?d ''orchestrator.pid'') = Some (''4242'' @ [newline])"
    "file_text pid_world (Join ?d ''missing.pid'') = None"
    "file_text pid_world (Join ?d ''api-server.pid'') = Some ''not a pid''"
    "file_text pid_world (Join ?d ''stale.pid'') = Some ''17''"
    by (simp_all add: pid_world_def)
  have i: "int_str pid_world = py_int"
    by (simp add: pid_world_def example_world_def)
  have s: "int_str pid_world (strip ''0'') = Inr 0"
    "int_str pid_world (strip (''4242'' @ [newline])) = Inr 4242"
    "int_str pid_world (strip ''17'') = Inr 17"
    by (simp_all add: i strip_def isspace_def newline_def py_int_0 py_int_4242 py_int_17)
  have n: "\<exists>e. int_str pid_world (strip ''not a pid'') = Inl e"
    by (simp add: i strip_def isspace_def py_int_simps)
  have k: "os_kill0 pid_world 0" "os_kill0 pid_world 4242" "\<not> os_kill0 pid_world 17"
    "\<not> process_alive pid_world 0"
    by (simp_all add: os_kill0_def pid_world_def)
  from n obtain e where e: "int_str pid_world (strip ''not a pid'') = Inl e" ..
  have r: "is_pid_running pid_world (Join ?d ''zero.pid'')"
    "is_pid_running pid_world (Join ?d ''orchestrator.pid'')"
    "\<not> is_pid_running pid_world (Join ?d ''missing.pid'')"
    "\<not> is_pid_running pid_world (Join ?d ''api-server.pid'')"
    "\<not> is_pid_running pid_world (Join ?d ''stale.pid'')"
    unfolding is_pid_running_def f by (simp_all only: s e k option.case sum.case not_False_eq_True)
  from f(1) s(1) k(4) r show ?thesis by blast
qed

text \<open>
  C6, as the code has it. \<open>find_data_dir\<close> returns the directory named by
  \<open>CT_DATA_DIR\<close> if the variable is set to a value that is not empty. Otherwise, the
  variable being unset or empty, and as far as the existence checks and the look-up of
  the home directory that it makes return: \<open>.claude-threads\<close> under the working
  directory if that exists; otherwise \<open>.claude-threads\<close> under the home directory if
  that exists; otherwise \<open>.claude-threads\<close> under the working directory, which does
  not exist. The result depends on the environment, the home directory and the
  existence checks only, and it is what \<open>DATA_DIR\<close> holds from the start of the process.
\<close>

theorem find_data_dir_precedence:
  "(environ w ''CT_DATA_DIR'' = Some v \<and> v \<noteq> [] \<longrightarrow> find_data_dir w = Inr (Path v)) \<and>
   (environ w ''CT_DATA_DIR'' = None \<or> environ w ''CT_DATA_DIR'' = Some [] \<longrightarrow>
      (path_exists w (Path ''.claude-threads'') = Inr True \<longrightarrow>
         find_data_dir w = Inr (Path ''.claude-threads'')) \<and>
      (path_exists w (Path ''.claude-threads'') = Inr False \<and> home w = Inr h \<and>
       path_exists w (Join h ''.claude-threads'') = Inr True \<longrightarrow>
         find_data_dir w = Inr (Join h ''.claude-threads'')) \<and>
      (path_exists w (Path ''.claude-threads'') = Inr False \<and> home w = Inr h \<and>
       path_exists w (Join h ''.claude-threads'') = Inr False \<longrightarrow>
         find_data_dir w = Inr (Path ''.claude-threads''))) \<and>
   (environ w' = environ w \<and> home w' = home w \<and> path_exists w' = path_exists w \<longrightarrow>
      find_data_dir w' = find_data_dir w) \<and>
   (find_data_dir w = Inr d \<longrightarrow>
      startup w = Inr \<lparr>DATA_DIR = d, DB_PATH = Join d ''threads.db''\<rparr>)"
proof (intro conjI impI)
  assume "environ w' = environ w \<and> home w' = home w \<and> path_exists w' = path_exists w"
  then have e: "environ w' = environ w" "home w' = home w" "path_exists w' = path_exists w"
    by simp_all
  show "find_data_dir w' = find_data_dir w"
    unfolding find_data_dir_def e by (rule refl)
qed (auto simp: find_data_dir_def startup_def Let_def)

lemma location_world_fields:
  "environ (location_world ov l h) ''CT_DATA_DIR'' = ov"
  "home (location_world ov l h) = Inr (Path ''/home/user'')"
  "path_exists (location_world ov l h) (Path ''.claude-threads'') = Inr l"
  "path_exists (location_world ov l h) (Join (Path ''/home/user'') ''.claude-threads'') = Inr h"
  by (simp_all add: location_world_def example_world_def)

theorem find_data_dir_precedence_witness:
  "environ (location_world (Some ''/srv/ct'') True True) ''CT_DATA_DIR'' = Some ''/srv/ct'' \<and>
   ''/srv/ct'' \<noteq> [] \<and>
   find_data_dir (location_world (Some ''/srv/ct'') True True) = Inr (Path ''/srv/ct'') \<and>
   startup (location_world (Some ''/srv/ct'') True True)
     = Inr \<lparr>DATA_DIR = Path ''/srv/ct'', DB_PATH = Join (Path ''/srv/ct'') ''threads.db''\<rparr> \<and>
   environ (location_world None True True) ''CT_DATA_DIR'' = None \<and>
   path_exists (location_world None True True) (Path ''.claude-threads'') = Inr True \<and>
   find_data_dir (location_world None True True) = Inr (Path ''.claude-threads'') \<and>
   path_exists (location_world None False True) (Path ''.claude-threads'') = Inr False \<and>
   home (location_world None False True) = Inr (Path ''/home/user'') \<and>
   path_exists (location_world None False True)
     (Join (Path ''/home/user'') ''.claude-threads'') = Inr True \<and>
   find_data_dir (location_world None False True)
     = Inr (Join (Path ''/home/user'') ''.claude-threads'') \<and>
   path_exists (location_world None False False) (Path ''.claude-threads'') = Inr False \<and>
   path_exists (location_world None False False)
     (Join (Path ''/home/user'') ''.claude-threads'') = Inr False \<and>
   find_data_dir (location_world None False False) = Inr (Path ''.claude-threads'')"
proof -
  note f = location_world_fields
  from find_data_dir_precedence [of "location_world (Some ''/srv/ct'') True True" "''/srv/ct''"]
  have c1: "find_data_dir (location_world (Some ''/srv/ct'') True True) = Inr (Path ''/srv/ct'')"
    by (simp add: f)
  from find_data_dir_precedence
    [of "location_world (Some ''/srv/ct'') True True" _ _ _ "Path ''/srv/ct''"] c1
  have c0: "startup (location_world (Some ''/srv/ct'') True True)
     = Inr \<lparr>DATA_DIR = Path ''/srv/ct'', DB_PATH = Join (Path ''/srv/ct'') ''threads.db''\<rparr>"
    by simp
  from find_data_dir_precedence [of "location_world None True True"]
  have c2: "find_data_dir (location_world None True True) = Inr (Path ''.claude-threads'')"
    by (simp add: f)
  from find_data_dir_precedence [of "location_world None False True" _ "Path ''/home/user''"]
  have c3: "find_data_dir (location_world None False True)
      = Inr (Join (Path ''/home/user'') ''.claude-threads'')"
    by (simp add: f)
  from find_data_dir_precedence [of "location_world None False False" _ "Path ''/home/user''"]
  have c4: "find_data_dir (location_world None False False) = Inr (Path ''.claude-threads'')"
    by (simp add: f)
  from c0 c1 c2 c3 c4 show ?thesis by (simp add: f)
qed

text \<open>
  C6, as the claim states it, fails at four worlds. With the override variable set to
  the empty string the variable is set, and the result is not the directory it names
  but the directory under the working directory. With no override and no directory
  under the working directory, the claim gives the path under the working directory
  when there is no directory under the home directory: but when no home directory can
  be determined, \<open>Path.home()\<close> raises and nothing is returned; and when a directory
  cannot be examined, the existence check raises and nothing is returned, whether the
  check is that of the home directory or that of the working directory.
\<close>

theorem empty_override_counterexample:
  "environ (location_world (Some []) True False) ''CT_DATA_DIR'' = Some [] \<and>
   find_data_dir (location_world (Some []) True False) = Inr (Path ''.claude-threads'') \<and>
   find_data_dir (location_world (Some []) True False) \<noteq> Inr (Path []) \<and>
   environ homeless_world ''CT_DATA_DIR'' = None \<and>
   path_exists homeless_world (Path ''.claude-threads'') = Inr False \<and>
   home homeless_world = Inl (RuntimeError ''Could not determine home directory.'') \<and>
   find_data_dir homeless_world = Inl (RuntimeError ''Could not determine home directory.'') \<and>
   environ unsearchable_home_world ''CT_DATA_DIR'' = None \<and>
   path_exists unsearchable_home_world (Path ''.claude-threads'') = Inr False \<and>
   home unsearchable_home_world = Inr (Path ''/home/user'') \<and>
   path_exists unsearchable_home_world (Join (Path ''/home/user'') ''.claude-threads'')
     = Inl denied \<and>
   find_data_dir unsearchable_home_world = Inl denied \<and>
   environ unsearchable_cwd_world ''CT_DATA_DIR'' = None \<and>
   path_exists unsearchable_cwd_world (Path ''.claude-threads'') = Inl denied \<and>
   find_data_dir unsearchable_cwd_world = Inl denied"
  by (simp add: find_data_dir_def location_world_def homeless_world_def
      unsearchable_home_world_def unsearchable_cwd_world_def example_world_def)

end
